theory Spec2Isabelle
  imports
    Complex_Main
    "HOL-Library.List_Lexorder"
    "HOL-Library.Char_ord"
    "HOL-Library.Product_Lexorder"
begin

section \<open>The incident dashboard of app.py: data model\<close>

text \<open>
  app.py is one script: it loads a CSV file into a pandas frame (\<open>load_data\<close>), builds a
  boolean mask from the sidebar selections, and computes the KPI values and the two chart
  tables from the selected rows. The frame is modelled as the list of its rows, a column
  as the list of one field over the rows, and a boolean mask as a list of booleans of the
  same length. Every exception the script can meet is a value of \<open>py_exception\<close>.
  Where pandas has changed its behaviour between versions, the model follows pandas 3.

  Calendar dates are triples (year, month, day of month); a timestamp is a date with a
  time of day (hour, minute, second, nanosecond). Both are ordered lexicographically,
  which is the chronological order. Strings are ordered lexicographically by character
  code, as Python orders \<open>str\<close>.
\<close>

type_synonym cal_date = "nat \<times> nat \<times> nat"
type_synonym time_of_day = "nat \<times> nat \<times> nat \<times> nat"
type_synonym timestamp = "cal_date \<times> time_of_day"

datatype py_exception =
    FileNotFoundError
  | ParserError
  | KeyError
  | ValueError
  | TypeError

text \<open>
  A row of the CSV file as \<open>pd.read_csv\<close> returns it: the date is still text. Every cell
  of a row is filled, as the incident records of the specification are; a file with empty
  cells, which pandas reads as missing values, is not among the frames of this model.
\<close>

record raw_row =
  raw_date :: string
  raw_zone :: string
  raw_crime_type :: string
  raw_latitude :: real
  raw_longitude :: real

text \<open>
  What \<open>pd.read_csv\<close> returns for a readable file: a frame with a \<open>date\<close> column, or a
  frame whose header has no \<open>date\<close> column (then \<open>df['date']\<close> raises \<open>KeyError\<close>).
\<close>

datatype raw_frame = Frame "raw_row list" | FrameNoDate

text \<open>
  What is at a path of the file system: nothing, a file that \<open>pd.read_csv\<close> cannot read
  (it raises something other than \<open>FileNotFoundError\<close>), or a readable file.
\<close>

datatype disk_entry = Absent | Unreadable | Csv raw_frame

text \<open>A row of the frame that \<open>load_data\<close> returns, with the derived columns.\<close>

record incident =
  date :: timestamp
  zone :: string
  crime_type :: string
  latitude :: real
  longitude :: real
  hour :: nat
  day :: string

section \<open>Text forms\<close>

definition digit :: "nat \<Rightarrow> char" where
  "digit n = ''0123456789'' ! (n mod 10)"

text \<open>\<open>str(n)\<close> for a natural number: decimal, no leading zero.\<close>

fun str_nat :: "nat \<Rightarrow> string" where
  "str_nat n = (if n < 10 then [digit n] else str_nat (n div 10) @ [digit n])"

declare str_nat.simps [simp del]

definition pad2 :: "nat \<Rightarrow> string" where
  "pad2 n = [digit (n div 10), digit n]"

definition pad4 :: "nat \<Rightarrow> string" where
  "pad4 n = [digit (n div 1000), digit (n div 100), digit (n div 10), digit n]"

text \<open>
  \<open>str(d)\<close> for a \<open>datetime.date\<close>: ISO form \<open>YYYY-MM-DD\<close>, zero padded. Both the \<open>day\<close>
  column (\<open>.dt.date.astype(str)\<close>) and the bounds of the filter (\<open>str(start_d)\<close>) are
  made with it.
\<close>

definition str_date :: "cal_date \<Rightarrow> string" where
  "str_date d = (case d of (y, m, dd) \<Rightarrow> pad4 y @ ''-'' @ pad2 m @ ''-'' @ pad2 dd)"

section \<open>The data engine: \<open>load_data\<close>\<close>

definition primary_path :: string where
  "primary_path = ''crime_data.csv''"

definition fallback_path :: string where
  "fallback_path = ''crime-dashboard/crime_data.csv''"

text \<open>\<open>pd.read_csv(path)\<close> on a file system \<open>fs\<close>.\<close>

definition read_csv :: "(string \<Rightarrow> disk_entry) \<Rightarrow> string \<Rightarrow> py_exception + raw_frame" where
  "read_csv fs path =
     (case fs path of
        Absent \<Rightarrow> Inl FileNotFoundError
      | Unreadable \<Rightarrow> Inl ParserError
      | Csv f \<Rightarrow> Inr f)"

text \<open>
  The inner \<open>try\<close>: the primary path, and the fallback path only when the first read
  raised \<open>FileNotFoundError\<close>; any other exception leaves the block.
\<close>

definition read_first :: "(string \<Rightarrow> disk_entry) \<Rightarrow> py_exception + raw_frame" where
  "read_first fs =
     (case read_csv fs primary_path of
        Inl FileNotFoundError \<Rightarrow> read_csv fs fallback_path
      | Inl e \<Rightarrow> Inl e
      | Inr f \<Rightarrow> Inr f)"

text \<open>\<open>df['date']\<close> on the frame just read.\<close>

definition getitem_date :: "raw_frame \<Rightarrow> py_exception + raw_row list" where
  "getitem_date f = (case f of FrameNoDate \<Rightarrow> Inl KeyError | Frame rows \<Rightarrow> Inr rows)"

text \<open>
  \<open>pd.to_datetime\<close> over the date column. pandas settles how the column is to be read
  from its first text (it guesses a format from it) and then reads every text of the
  column that way, so that a column of mixed formats is rejected. The parser of pandas is
  the parameter \<open>parse\<close>: \<open>parse t0 t\<close> is the timestamp that pandas reads from the text
  \<open>t\<close> in a column whose first text is \<open>t0\<close>, and \<open>None\<close> when it rejects \<open>t\<close> there. One
  rejected text makes the whole call raise (\<open>ValueError\<close>, or its subclass
  \<open>DateParseError\<close>).
\<close>

type_synonym date_parser = "string \<Rightarrow> string \<Rightarrow> timestamp option"

fun array_strptime :: "(string \<Rightarrow> timestamp option) \<Rightarrow> string list \<Rightarrow> py_exception + timestamp list" where
  "array_strptime read [] = Inr []"
| "array_strptime read (s # ss) =
     (case read s of
        None \<Rightarrow> Inl ValueError
      | Some t \<Rightarrow>
          (case array_strptime read ss of
             Inl e \<Rightarrow> Inl e
           | Inr ts \<Rightarrow> Inr (t # ts)))"

definition to_datetime :: "date_parser \<Rightarrow> string list \<Rightarrow> py_exception + timestamp list" where
  "to_datetime parse texts =
     (case texts of
        [] \<Rightarrow> Inr []
      | t0 # _ \<Rightarrow> array_strptime (parse t0) texts)"

text \<open>
  The processing lines: \<open>date\<close> becomes the timestamp, \<open>hour\<close> is \<open>.dt.hour\<close>, \<open>day\<close> is
  the text of \<open>.dt.date\<close>.
\<close>

definition derive :: "raw_row \<Rightarrow> timestamp \<Rightarrow> incident" where
  "derive r t =
     \<lparr> date = t,
       zone = raw_zone r,
       crime_type = raw_crime_type r,
       latitude = raw_latitude r,
       longitude = raw_longitude r,
       hour = fst (snd t),
       day = str_date (fst t) \<rparr>"

definition processing :: "date_parser \<Rightarrow> raw_frame \<Rightarrow> py_exception + incident list" where
  "processing parse f =
     (case getitem_date f of
        Inl e \<Rightarrow> Inl e
      | Inr rows \<Rightarrow>
          (case to_datetime parse (map raw_date rows) of
             Inl e \<Rightarrow> Inl e
           | Inr ts \<Rightarrow> Inr (map (\<lambda>(r, t). derive r t) (zip rows ts))))"

text \<open>The body of the outer \<open>try\<close> of \<open>load_data\<close>.\<close>

definition load_body :: "date_parser \<Rightarrow> (string \<Rightarrow> disk_entry) \<Rightarrow> py_exception + incident list" where
  "load_body parse fs =
     (case read_first fs of
        Inl e \<Rightarrow> Inl e
      | Inr f \<Rightarrow> processing parse f)"

text \<open>
  \<open>load_data\<close>: \<open>except Exception\<close> turns every exception of the body into
  \<open>pd.DataFrame()\<close>, the frame with no rows.
\<close>

definition load_data :: "date_parser \<Rightarrow> (string \<Rightarrow> disk_entry) \<Rightarrow> py_exception + incident list" where
  "load_data parse fs =
     (case load_body parse fs of
        Inl e \<Rightarrow> Inr []
      | Inr df \<Rightarrow> Inr df)"

section \<open>The sidebar: filter mask\<close>

text \<open>
  What \<open>st.date_input\<close> hands back: a tuple of dates (of any length), or one date that is
  not a tuple.
\<close>

datatype date_input = DateTuple "cal_date list" | DateValue cal_date

text \<open>\<open>Series.isin(values)\<close>: row by row, membership in the selection.\<close>

definition isin :: "'a list \<Rightarrow> 'a list \<Rightarrow> bool list" where
  "isin col vals = map (\<lambda>v. v \<in> set vals) col"

text \<open>\<open>m1 & m2\<close> on two boolean columns of one frame.\<close>

definition and_mask :: "bool list \<Rightarrow> bool list \<Rightarrow> bool list" where
  "and_mask m1 m2 = map (\<lambda>(a, b). a \<and> b) (zip m1 m2)"

text \<open>\<open>df.loc[mask]\<close>: the rows whose mask entry is true, in the order of the frame.\<close>

definition loc :: "'a list \<Rightarrow> bool list \<Rightarrow> 'a list" where
  "loc df mask0 = map fst (filter snd (zip df mask0))"

text \<open>
  The value of the variable \<open>mask\<close>: a boolean column of pandas (what a comparison of a
  column gives), or a plain Python list (what \<open>[True] * len(df)\<close> gives).
\<close>

datatype mask_value = SeriesMask "bool list" | ListMask "bool list"

text \<open>
  The date part of the mask, in the order of the branches of the script: a tuple of two
  dates, a tuple of one date, any other tuple, and a value that is not a tuple.
\<close>

fun date_mask :: "incident list \<Rightarrow> date_input \<Rightarrow> mask_value" where
  "date_mask df (DateTuple [start_d, end_d]) =
     SeriesMask
       (and_mask (map (\<lambda>r. str_date start_d \<le> day r) df) (map (\<lambda>r. day r \<le> str_date end_d) df))"
| "date_mask df (DateTuple [d]) = SeriesMask (map (\<lambda>r. day r = str_date d) df)"
| "date_mask df (DateTuple ds) = ListMask (replicate (length df) True)"
| "date_mask df (DateValue d) = SeriesMask (map (\<lambda>r. day r = str_date d) df)"

text \<open>
  \<open>mask &= column\<close>. On a boolean column it is the conjunction row by row. A Python list
  has no \<open>&=\<close> of its own, so the operation falls to the column, and pandas 3 refuses a
  logical operation between a column and a list with \<open>TypeError\<close> (pandas 2 gave a
  deprecation warning and the conjunction row by row).
\<close>

definition iand :: "mask_value \<Rightarrow> bool list \<Rightarrow> py_exception + bool list" where
  "iand m col =
     (case m of
        SeriesMask b \<Rightarrow> Inr (and_mask b col)
      | ListMask l \<Rightarrow> Inl TypeError)"

text \<open>
  \<open>filtered_df\<close>: the mask is built and applied only when the loaded frame has rows;
  otherwise the filtered frame is \<open>pd.DataFrame()\<close>. Nothing catches an exception of
  these lines.
\<close>

definition filtered_df :: "incident list \<Rightarrow> date_input \<Rightarrow> string list \<Rightarrow> string list \<Rightarrow> py_exception + incident list" where
  "filtered_df df dates zones crimes =
     (if df \<noteq> [] then
        (case iand (date_mask df dates) (isin (map zone df) zones) of
           Inl e \<Rightarrow> Inl e
         | Inr mask1 \<Rightarrow>
             (let mask2 = and_mask mask1 (isin (map crime_type df) crimes)
              in Inr (loc df mask2)))
      else Inr [])"

section \<open>Aggregation: frequency tables of pandas\<close>

text \<open>
  \<open>mode\<close>, \<open>value_counts\<close> and \<open>groupby(...).size()\<close> all start from the table of
  occurrence counts of a column, one entry for each distinct value in the order of first
  occurrence. (Every cell of the columns used here holds a value: the typed rows have no
  missing cells.)
\<close>

fun incr :: "'a \<Rightarrow> ('a \<times> nat) list \<Rightarrow> ('a \<times> nat) list" where
  "incr k [] = [(k, 1)]"
| "incr k ((k', c) # t) = (if k = k' then (k', Suc c) # t else (k', c) # incr k t)"

definition tally :: "'a list \<Rightarrow> ('a \<times> nat) list" where
  "tally xs = foldl (\<lambda>t k. incr k t) [] xs"

text \<open>
  \<open>Series.mode()\<close>: the values whose count is the largest, sorted ascending; no value at
  all for an empty column.
\<close>

definition mode :: "'a::linorder list \<Rightarrow> 'a list" where
  "mode xs =
     (let t = tally xs;
          m = fold max (map snd t) 0
      in sort (map fst (filter (\<lambda>p. snd p = m) t)))"

text \<open>\<open>s[0]\<close> on the result: the entry at label 0, or \<open>KeyError\<close> when there is none.\<close>

definition getitem0 :: "'a list \<Rightarrow> py_exception + 'a" where
  "getitem0 s = (case s of [] \<Rightarrow> Inl KeyError | x # _ \<Rightarrow> Inr x)"

text \<open>\<open>Series.value_counts()\<close>: the table sorted by count, largest first.\<close>

definition value_counts :: "'a list \<Rightarrow> ('a \<times> nat) list" where
  "value_counts xs = rev (sort_key snd (rev (tally xs)))"

text \<open>\<open>groupby(key).size()\<close>: the table sorted by key, ascending.\<close>

definition groupby_size :: "'a::linorder list \<Rightarrow> ('a \<times> nat) list" where
  "groupby_size xs = sort_key fst (tally xs)"

section \<open>The script from the header to the charts\<close>

record dashboard =
  total_kpi :: nat
  risk_zone :: string
  primary_code :: string
  peak_h :: string
  counts :: "(string \<times> nat) list"
  trend :: "(timestamp \<times> nat) list"

text \<open>
  How a run of the script ends: \<open>st.error\<close> with a message followed by \<open>st.stop()\<close>, an
  exception that nothing catches, or the rendered dashboard.
\<close>

datatype outcome = Stopped string | Raised py_exception | Rendered dashboard

definition offline_message :: string where
  "offline_message = ''SYSTEM OFFLINE: NO DATA FOUND. CHECK CONNECTION.''"

text \<open>The KPI values and the two chart tables, computed from a filtered frame.\<close>

definition kpis :: "incident list \<Rightarrow> outcome" where
  "kpis fdf =
     (case getitem0 (mode (map zone fdf)) of
        Inl e \<Rightarrow> Raised e
      | Inr rz \<Rightarrow>
          (case getitem0 (mode (map crime_type fdf)) of
             Inl e \<Rightarrow> Raised e
           | Inr pc \<Rightarrow>
               (case getitem0 (mode (map hour fdf)) of
                  Inl e \<Rightarrow> Raised e
                | Inr h \<Rightarrow>
                    Rendered
                      \<lparr> total_kpi = length fdf,
                        risk_zone = rz,
                        primary_code = pc,
                        peak_h = str_nat h @ '':00'',
                        counts = value_counts (map crime_type fdf),
                        trend = groupby_size (map date fdf) \<rparr>)))"

text \<open>
  The whole run, for a file system \<open>fs\<close> and the sidebar selections \<open>dates\<close>, \<open>zones\<close>
  and \<open>crimes\<close>.
\<close>

definition app :: "date_parser \<Rightarrow> (string \<Rightarrow> disk_entry) \<Rightarrow> date_input \<Rightarrow> string list \<Rightarrow> string list \<Rightarrow> outcome" where
  "app parse fs dates zones crimes =
     (case load_data parse fs of
        Inl e \<Rightarrow> Raised e
      | Inr df \<Rightarrow>
          (case filtered_df df dates zones crimes of
             Inl e \<Rightarrow> Raised e
           | Inr fdf \<Rightarrow> if fdf = [] then Stopped offline_message else kpis fdf))"


section \<open>The specification's side\<close>

text \<open>
  Dates that \<open>datetime.date\<close> admits: years 1 to 9999, months 1 to 12, days 1 to 31.
\<close>

definition valid_date :: "cal_date \<Rightarrow> bool" where
  "valid_date d =
     (case d of (y, m, dd) \<Rightarrow> 1 \<le> y \<and> y \<le> 9999 \<and> 1 \<le> m \<and> m \<le> 12 \<and> 1 \<le> dd \<and> dd \<le> 31)"

text \<open>
  The date predicate of the specification, record by record: a single date matches the
  records of that day, a pair matches the days between its ends (both included), and no
  date at all matches every record. (The specification says nothing of tuples of three or
  more dates; the script treats them as it treats the empty tuple.)
\<close>

fun date_predicate :: "date_input \<Rightarrow> incident \<Rightarrow> bool" where
  "date_predicate (DateValue d) r = (day r = str_date d)"
| "date_predicate (DateTuple [d]) r = (day r = str_date d)"
| "date_predicate (DateTuple [start_d, end_d]) r = (str_date start_d \<le> day r \<and> day r \<le> str_date end_d)"
| "date_predicate (DateTuple ds) r = True"

text \<open>
  The date inputs that carry one date or two: a date that is not a tuple, a tuple of one
  date, a tuple of two.
\<close>

fun one_or_two_dates :: "date_input \<Rightarrow> bool" where
  "one_or_two_dates (DateValue d) = True"
| "one_or_two_dates (DateTuple ds) = (length ds = 1 \<or> length ds = 2)"

text \<open>
  The modal value of the specification: among the values of a column that occur most
  often, the lowest one.
\<close>

definition lowest_modal :: "'a::linorder list \<Rightarrow> 'a" where
  "lowest_modal xs = Min {v \<in> set xs. \<forall>w \<in> set xs. count_list xs w \<le> count_list xs v}"

text \<open>
  The daily series of the specification: each distinct day of the view with the number of
  records of that day, the days ascending.
\<close>

definition daily_series :: "incident list \<Rightarrow> (string \<times> nat) list" where
  "daily_series v = map (\<lambda>d. (d, count_list (map day v) d)) (sort (remdups (map day v)))"

section \<open>Sample inputs\<close>

text \<open>
  The date texts used in the examples below, each with the format that pandas guesses
  from it and the timestamp that it reads from it in that format.
\<close>

definition sample_texts :: "(string \<times> string \<times> timestamp) list" where
  "sample_texts =
     [(''2024-01-01'', ''%Y-%m-%d'', ((2024, 1, 1), (0, 0, 0, 0))),
      (''2024-01-02'', ''%Y-%m-%d'', ((2024, 1, 2), (0, 0, 0, 0))),
      (''2024-01-01 09:30:00'', ''%Y-%m-%d %H:%M:%S'', ((2024, 1, 1), (9, 30, 0, 0))),
      (''2024-01-01 17:45:00'', ''%Y-%m-%d %H:%M:%S'', ((2024, 1, 1), (17, 45, 0, 0))),
      (''2024-01-02 12:00:00'', ''%Y-%m-%d %H:%M:%S'', ((2024, 1, 2), (12, 0, 0, 0)))]"

text \<open>
  The parser on these texts: a text is read in a column when the first text of the column
  has a format and the text has the same one; every other text is rejected.
\<close>

definition sample_parse :: date_parser where
  "sample_parse t0 t =
     (case map_of sample_texts t0 of
        None \<Rightarrow> None
      | Some (f0, _) \<Rightarrow>
          (case map_of sample_texts t of
             None \<Rightarrow> None
           | Some (f, ts) \<Rightarrow> if f = f0 then Some ts else None))"

text \<open>The three records of the filtering scenario, as rows of a CSV file.\<close>

definition scenario_rows :: "raw_row list" where
  "scenario_rows =
     [\<lparr> raw_date = ''2024-01-01'', raw_zone = ''A'', raw_crime_type = ''theft'',
        raw_latitude = 28.61, raw_longitude = 77.2 \<rparr>,
      \<lparr> raw_date = ''2024-01-01'', raw_zone = ''B'', raw_crime_type = ''theft'',
        raw_latitude = 28.7, raw_longitude = 77.1 \<rparr>,
      \<lparr> raw_date = ''2024-01-02'', raw_zone = ''A'', raw_crime_type = ''assault'',
        raw_latitude = 28.5, raw_longitude = 77.3 \<rparr>]"

text \<open>The frame that \<open>load_data\<close> makes of these rows.\<close>

definition scenario_df :: "incident list" where
  "scenario_df =
     [\<lparr> date = ((2024, 1, 1), (0, 0, 0, 0)), zone = ''A'', crime_type = ''theft'',
        latitude = 28.61, longitude = 77.2, hour = 0, day = ''2024-01-01'' \<rparr>,
      \<lparr> date = ((2024, 1, 1), (0, 0, 0, 0)), zone = ''B'', crime_type = ''theft'',
        latitude = 28.7, longitude = 77.1, hour = 0, day = ''2024-01-01'' \<rparr>,
      \<lparr> date = ((2024, 1, 2), (0, 0, 0, 0)), zone = ''A'', crime_type = ''assault'',
        latitude = 28.5, longitude = 77.3, hour = 0, day = ''2024-01-02'' \<rparr>]"

text \<open>Two rows of one day at different hours, and a row whose date is no date.\<close>

definition same_day_rows :: "raw_row list" where
  "same_day_rows =
     [\<lparr> raw_date = ''2024-01-01 09:30:00'', raw_zone = ''A'', raw_crime_type = ''theft'',
        raw_latitude = 28.61, raw_longitude = 77.2 \<rparr>,
      \<lparr> raw_date = ''2024-01-01 17:45:00'', raw_zone = ''B'', raw_crime_type = ''theft'',
        raw_latitude = 28.7, raw_longitude = 77.1 \<rparr>]"

definition bad_date_rows :: "raw_row list" where
  "bad_date_rows =
     [\<lparr> raw_date = ''2024-01-01'', raw_zone = ''A'', raw_crime_type = ''theft'',
        raw_latitude = 28.61, raw_longitude = 77.2 \<rparr>,
      \<lparr> raw_date = ''yesterday'', raw_zone = ''B'', raw_crime_type = ''theft'',
        raw_latitude = 28.7, raw_longitude = 77.1 \<rparr>]"

text \<open>
  The three records of the scenario again, now with a time of day in the file, and the
  frame that \<open>load_data\<close> makes of them.
\<close>

definition timed_rows :: "raw_row list" where
  "timed_rows =
     [\<lparr> raw_date = ''2024-01-01 09:30:00'', raw_zone = ''A'', raw_crime_type = ''theft'',
        raw_latitude = 28.61, raw_longitude = 77.2 \<rparr>,
      \<lparr> raw_date = ''2024-01-01 17:45:00'', raw_zone = ''B'', raw_crime_type = ''theft'',
        raw_latitude = 28.7, raw_longitude = 77.1 \<rparr>,
      \<lparr> raw_date = ''2024-01-02 12:00:00'', raw_zone = ''A'', raw_crime_type = ''assault'',
        raw_latitude = 28.5, raw_longitude = 77.3 \<rparr>]"

definition timed_df :: "incident list" where
  "timed_df =
     [\<lparr> date = ((2024, 1, 1), (9, 30, 0, 0)), zone = ''A'', crime_type = ''theft'',
        latitude = 28.61, longitude = 77.2, hour = 9, day = ''2024-01-01'' \<rparr>,
      \<lparr> date = ((2024, 1, 1), (17, 45, 0, 0)), zone = ''B'', crime_type = ''theft'',
        latitude = 28.7, longitude = 77.1, hour = 17, day = ''2024-01-01'' \<rparr>,
      \<lparr> date = ((2024, 1, 2), (12, 0, 0, 0)), zone = ''A'', crime_type = ''assault'',
        latitude = 28.5, longitude = 77.3, hour = 12, day = ''2024-01-02'' \<rparr>]"

text \<open>A file of two formats: a day alone in the first row, a day with a time in the second.\<close>

definition mixed_rows :: "raw_row list" where
  "mixed_rows =
     [\<lparr> raw_date = ''2024-01-01'', raw_zone = ''A'', raw_crime_type = ''theft'',
        raw_latitude = 28.61, raw_longitude = 77.2 \<rparr>,
      \<lparr> raw_date = ''2024-01-01 17:45:00'', raw_zone = ''B'', raw_crime_type = ''theft'',
        raw_latitude = 28.7, raw_longitude = 77.1 \<rparr>]"

text \<open>
  File systems: no file at all, one entry at one of the two paths, and an entry at each
  of them.
\<close>

definition no_files :: "string \<Rightarrow> disk_entry" where
  "no_files p = Absent"

definition primary_only :: "disk_entry \<Rightarrow> string \<Rightarrow> disk_entry" where
  "primary_only f p = (if p = primary_path then f else Absent)"

definition fallback_only :: "disk_entry \<Rightarrow> string \<Rightarrow> disk_entry" where
  "fallback_only f p = (if p = fallback_path then f else Absent)"

definition two_files :: "disk_entry \<Rightarrow> disk_entry \<Rightarrow> string \<Rightarrow> disk_entry" where
  "two_files f g p = (if p = primary_path then f else if p = fallback_path then g else Absent)"

text \<open>The frame that \<open>load_data\<close> makes of the two rows of one day.\<close>

definition same_day_df :: "incident list" where
  "same_day_df =
     [\<lparr> date = ((2024, 1, 1), (9, 30, 0, 0)), zone = ''A'', crime_type = ''theft'',
        latitude = 28.61, longitude = 77.2, hour = 9, day = ''2024-01-01'' \<rparr>,
      \<lparr> date = ((2024, 1, 1), (17, 45, 0, 0)), zone = ''B'', crime_type = ''theft'',
        latitude = 28.7, longitude = 77.1, hour = 17, day = ''2024-01-01'' \<rparr>]"

text \<open>
  A view in which every column has two values of the same highest frequency, the higher
  one met first.
\<close>

definition tied_df :: "incident list" where
  "tied_df =
     [\<lparr> date = ((2024, 1, 1), (17, 45, 0, 0)), zone = ''B'', crime_type = ''theft'',
        latitude = 28.7, longitude = 77.1, hour = 17, day = ''2024-01-01'' \<rparr>,
      \<lparr> date = ((2024, 1, 1), (9, 30, 0, 0)), zone = ''A'', crime_type = ''assault'',
        latitude = 28.61, longitude = 77.2, hour = 9, day = ''2024-01-01'' \<rparr>,
      \<lparr> date = ((2024, 1, 2), (9, 30, 0, 0)), zone = ''B'', crime_type = ''assault'',
        latitude = 28.7, longitude = 77.1, hour = 9, day = ''2024-01-02'' \<rparr>,
      \<lparr> date = ((2024, 1, 2), (17, 45, 0, 0)), zone = ''A'', crime_type = ''theft'',
        latitude = 28.61, longitude = 77.2, hour = 17, day = ''2024-01-02'' \<rparr>]"

section \<open>The loader\<close>

lemma paths_differ: "primary_path \<noteq> fallback_path"
  by (simp add: primary_path_def fallback_path_def)

lemma array_strptime_parsed:
  "map read ss = map Some ts \<Longrightarrow> array_strptime read ss = Inr ts"
  by (induction ss arbitrary: ts) auto

lemma array_strptime_cases:
  "array_strptime read ss = Inl ValueError \<or>
   (\<exists>ts. array_strptime read ss = Inr ts \<and> map read ss = map Some ts)"
  by (induction ss) (auto split: option.splits sum.splits)

lemma array_strptime_rejects:
  assumes "s \<in> set ss" and "read s = None"
  shows "array_strptime read ss = Inl ValueError"
proof -
  have "\<not> (\<exists>ts. map read ss = map Some ts)"
  proof
    assume "\<exists>ts. map read ss = map Some ts"
    then obtain ts where "map read ss = map Some ts" ..
    then have "set (map read ss) = set (map Some ts)" by simp
    moreover have "None \<in> set (map read ss)" using assms by force
    ultimately show False by auto
  qed
  then show ?thesis using array_strptime_cases [of read ss] by blast
qed

lemma to_datetime_parsed:
  assumes "map (parse (hd ss)) ss = map Some ts"
  shows "to_datetime parse ss = Inr ts"
proof (cases ss)
  case Nil
  then show ?thesis using assms by (simp add: to_datetime_def)
next
  case (Cons a list)
  have "array_strptime (parse (hd ss)) ss = Inr ts"
    using assms by (rule array_strptime_parsed)
  then show ?thesis using Cons by (simp add: to_datetime_def)
qed

lemma to_datetime_rejects:
  "s \<in> set ss \<Longrightarrow> parse (hd ss) s = None \<Longrightarrow> to_datetime parse ss = Inl ValueError"
  using array_strptime_rejects [of s ss "parse (hd ss)"]
  by (cases ss) (simp_all add: to_datetime_def)

lemma read_first_primary:
  "fs primary_path \<noteq> Absent \<Longrightarrow> read_first fs = read_csv fs primary_path"
  by (auto simp: read_first_def read_csv_def split: disk_entry.splits)

lemma read_first_fallback:
  "fs primary_path = Absent \<Longrightarrow> read_first fs = read_csv fs fallback_path"
  by (auto simp: read_first_def read_csv_def split: disk_entry.splits)

lemma hd_raw_date: "hd (map raw_date rows) = raw_date (hd rows) \<or> rows = []"
  by (cases rows) simp_all

lemma processing_parsed:
  assumes "map (\<lambda>r. parse (raw_date (hd rows)) (raw_date r)) rows = map Some ts"
  shows "processing parse (Frame rows) = Inr (map (\<lambda>(r, t). derive r t) (zip rows ts))"
proof (cases rows)
  case Nil
  then show ?thesis using assms by (simp add: processing_def getitem_date_def to_datetime_def)
next
  case (Cons r rs)
  then have "map (parse (hd (map raw_date rows))) (map raw_date rows) = map Some ts"
    using assms by (simp add: comp_def)
  then have "to_datetime parse (map raw_date rows) = Inr ts"
    by (rule to_datetime_parsed)
  then show ?thesis by (simp add: processing_def getitem_date_def)
qed

lemma processing_rejects:
  assumes "r \<in> set rows" and "parse (raw_date (hd rows)) (raw_date r) = None"
  shows "processing parse (Frame rows) = Inl ValueError"
proof -
  have ne: "rows \<noteq> []" using assms(1) by auto
  then have h: "hd (map raw_date rows) = raw_date (hd rows)" by (simp add: hd_map)
  have "raw_date r \<in> set (map raw_date rows)" using assms(1) by simp
  moreover have "parse (hd (map raw_date rows)) (raw_date r) = None"
    using assms(2) h by simp
  ultimately have "to_datetime parse (map raw_date rows) = Inl ValueError"
    by (rule to_datetime_rejects)
  then show ?thesis by (simp add: processing_def getitem_date_def)
qed

lemma load_data_primary_file:
  assumes "fs primary_path = Csv (Frame rows)"
    and "map (\<lambda>r. parse (raw_date (hd rows)) (raw_date r)) rows = map Some ts"
  shows "load_data parse fs = Inr (map (\<lambda>(r, t). derive r t) (zip rows ts))"
  using assms processing_parsed [of parse rows ts]
  by (simp add: load_data_def load_body_def read_first_def read_csv_def)

lemma load_data_fallback_file:
  assumes "fs primary_path = Absent" and "fs fallback_path = Csv (Frame rows)"
    and "map (\<lambda>r. parse (raw_date (hd rows)) (raw_date r)) rows = map Some ts"
  shows "load_data parse fs = Inr (map (\<lambda>(r, t). derive r t) (zip rows ts))"
  using assms processing_parsed [of parse rows ts]
  by (simp add: load_data_def load_body_def read_first_def read_csv_def)

lemma scenario_parsed:
  "map (\<lambda>r. sample_parse (raw_date (hd scenario_rows)) (raw_date r)) scenario_rows =
   map Some [((2024, 1, 1), (0, 0, 0, 0)), ((2024, 1, 1), (0, 0, 0, 0)), ((2024, 1, 2), (0, 0, 0, 0))]"
  by (simp add: scenario_rows_def sample_parse_def sample_texts_def)

lemma scenario_derived:
  "map (\<lambda>(r, t). derive r t)
     (zip scenario_rows
        [((2024, 1, 1), (0, 0, 0, 0)), ((2024, 1, 1), (0, 0, 0, 0)), ((2024, 1, 2), (0, 0, 0, 0))]) =
   scenario_df"
  by (simp add: scenario_rows_def scenario_df_def derive_def str_date_def pad4_def pad2_def digit_def)

lemma processing_scenario:
  "processing sample_parse (Frame scenario_rows) = Inr scenario_df"
  using scenario_parsed processing_parsed [of sample_parse scenario_rows]
  by (simp only: scenario_derived)

lemma load_body_scenario_primary:
  "load_body sample_parse (primary_only (Csv (Frame scenario_rows))) = Inr scenario_df"
  by (simp add: load_body_def read_first_def read_csv_def primary_only_def processing_scenario)

lemma same_day_parsed:
  "map (\<lambda>r. sample_parse (raw_date (hd same_day_rows)) (raw_date r)) same_day_rows =
   map Some [((2024, 1, 1), (9, 30, 0, 0)), ((2024, 1, 1), (17, 45, 0, 0))]"
  by (simp add: same_day_rows_def sample_parse_def sample_texts_def)

lemma same_day_derived:
  "map (\<lambda>(r, t). derive r t)
     (zip same_day_rows [((2024, 1, 1), (9, 30, 0, 0)), ((2024, 1, 1), (17, 45, 0, 0))]) =
   same_day_df"
  by (simp add: same_day_rows_def same_day_df_def derive_def str_date_def pad4_def pad2_def
      digit_def)

lemma processing_same_day:
  "processing sample_parse (Frame same_day_rows) = Inr same_day_df"
  using same_day_parsed processing_parsed [of sample_parse same_day_rows]
  by (simp only: same_day_derived)

lemma load_body_same_day_primary:
  "load_body sample_parse (primary_only (Csv (Frame same_day_rows))) = Inr same_day_df"
  by (simp add: load_body_def read_first_def read_csv_def primary_only_def processing_same_day)

lemma timed_parsed:
  "map (\<lambda>r. sample_parse (raw_date (hd timed_rows)) (raw_date r)) timed_rows =
   map Some [((2024, 1, 1), (9, 30, 0, 0)), ((2024, 1, 1), (17, 45, 0, 0)),
             ((2024, 1, 2), (12, 0, 0, 0))]"
  by (simp add: timed_rows_def sample_parse_def sample_texts_def)

lemma timed_derived:
  "map (\<lambda>(r, t). derive r t)
     (zip timed_rows [((2024, 1, 1), (9, 30, 0, 0)), ((2024, 1, 1), (17, 45, 0, 0)),
                      ((2024, 1, 2), (12, 0, 0, 0))]) =
   timed_df"
  by (simp add: timed_rows_def timed_df_def derive_def str_date_def pad4_def pad2_def digit_def)

lemma processing_timed:
  "processing sample_parse (Frame timed_rows) = Inr timed_df"
  using timed_parsed processing_parsed [of sample_parse timed_rows]
  by (simp only: timed_derived)

lemma load_body_timed_primary:
  "load_body sample_parse (primary_only (Csv (Frame timed_rows))) = Inr timed_df"
  by (simp add: load_body_def read_first_def read_csv_def primary_only_def processing_timed)

lemma load_body_no_files: "load_body parse no_files = Inl FileNotFoundError"
  by (simp add: load_body_def read_first_def read_csv_def no_files_def)

text \<open>
  C10. \<open>load_data\<close> is total over the conditions of its input file: whatever is at the two
  paths and whatever the date parser accepts, it returns a frame and passes no exception
  on; whenever its body raises, the frame it returns has no rows, and otherwise it is the
  frame that the body made.
\<close>

theorem load_data_total:
  "(\<exists>df. load_data parse fs = Inr df) \<and>
   (\<forall>e. load_body parse fs = Inl e \<longrightarrow> load_data parse fs = Inr []) \<and>
   (\<forall>df. load_body parse fs = Inr df \<longrightarrow> load_data parse fs = Inr df)"
  by (simp add: load_data_def split: sum.splits)

theorem load_data_total_witness:
  "load_body sample_parse no_files = Inl FileNotFoundError \<and>
   load_data sample_parse no_files = Inr [] \<and>
   load_body sample_parse (primary_only (Csv (Frame scenario_rows))) = Inr scenario_df \<and>
   load_data sample_parse (primary_only (Csv (Frame scenario_rows))) = Inr scenario_df"
proof -
  have a: "load_body sample_parse no_files = Inl FileNotFoundError"
    by (rule load_body_no_files)
  note b = load_body_scenario_primary
  from a load_data_total [where parse = sample_parse and fs = no_files]
  have "load_data sample_parse no_files = Inr []" by blast
  moreover from b load_data_total [where parse = sample_parse and fs = "primary_only (Csv (Frame scenario_rows))"]
  have "load_data sample_parse (primary_only (Csv (Frame scenario_rows))) = Inr scenario_df"
    by blast
  ultimately show ?thesis using a b by simp
qed

text \<open>
  C1, as the code has it. When the file is missing at both paths, and when a file is
  found but cannot be used (the read of the primary path raises something other than
  file-not-found, the fallback file is unreadable, the frame has no \<open>date\<close> column, or
  some date text is rejected, being no date or not in the format of the first row),
  \<open>load_data\<close> raises nothing: in each of these cases it
  returns the frame with no rows as its ordinary result, the same for a missing file and
  for a malformed one.
\<close>

theorem load_data_failure_collapses:
  "(fs primary_path = Absent \<and> fs fallback_path = Absent \<longrightarrow> load_data parse fs = Inr []) \<and>
   (fs primary_path = Unreadable \<longrightarrow> load_data parse fs = Inr []) \<and>
   (fs primary_path = Absent \<and> fs fallback_path = Unreadable \<longrightarrow> load_data parse fs = Inr []) \<and>
   (read_first fs = Inr FrameNoDate \<longrightarrow> load_data parse fs = Inr []) \<and>
   (read_first fs = Inr (Frame rows) \<and>
    (\<exists>r \<in> set rows. parse (raw_date (hd rows)) (raw_date r) = None)
      \<longrightarrow> load_data parse fs = Inr [])"
  by (auto simp: load_data_def load_body_def read_first_def read_csv_def processing_rejects
      getitem_date_def processing_def [of parse FrameNoDate] split: sum.splits)

theorem load_data_failure_collapses_witness:
  "load_data sample_parse no_files = Inr [] \<and>
   load_data sample_parse (primary_only Unreadable) = Inr [] \<and>
   load_data sample_parse (fallback_only Unreadable) = Inr [] \<and>
   load_data sample_parse (primary_only (Csv FrameNoDate)) = Inr [] \<and>
   load_data sample_parse (fallback_only (Csv (Frame bad_date_rows))) = Inr [] \<and>
   load_data sample_parse (primary_only (Csv (Frame mixed_rows))) = Inr []"
proof -
  have "no_files primary_path = Absent \<and> no_files fallback_path = Absent"
    by (simp add: no_files_def)
  with load_data_failure_collapses [where fs = no_files and parse = sample_parse]
  have 1: "load_data sample_parse no_files = Inr []" by blast
  have "primary_only Unreadable primary_path = Unreadable"
    by (simp add: primary_only_def)
  with load_data_failure_collapses [where fs = "primary_only Unreadable" and parse = sample_parse]
  have 2: "load_data sample_parse (primary_only Unreadable) = Inr []" by blast
  have "fallback_only Unreadable primary_path = Absent \<and>
        fallback_only Unreadable fallback_path = Unreadable"
    using paths_differ by (simp add: fallback_only_def)
  with load_data_failure_collapses [where fs = "fallback_only Unreadable" and parse = sample_parse]
  have 3: "load_data sample_parse (fallback_only Unreadable) = Inr []" by blast
  have "read_first (primary_only (Csv FrameNoDate)) = Inr FrameNoDate"
    by (simp add: read_first_def read_csv_def primary_only_def)
  with load_data_failure_collapses [where fs = "primary_only (Csv FrameNoDate)" and parse = sample_parse]
  have 4: "load_data sample_parse (primary_only (Csv FrameNoDate)) = Inr []" by blast
  have "read_first (fallback_only (Csv (Frame bad_date_rows))) = Inr (Frame bad_date_rows) \<and>
        (\<exists>r \<in> set bad_date_rows.
           sample_parse (raw_date (hd bad_date_rows)) (raw_date r) = None)"
    using paths_differ
    by (simp add: read_first_def read_csv_def fallback_only_def bad_date_rows_def sample_parse_def
        sample_texts_def)
  with load_data_failure_collapses
         [where fs = "fallback_only (Csv (Frame bad_date_rows))" and parse = sample_parse
            and rows = bad_date_rows]
  have 5: "load_data sample_parse (fallback_only (Csv (Frame bad_date_rows))) = Inr []" by blast
  have "read_first (primary_only (Csv (Frame mixed_rows))) = Inr (Frame mixed_rows) \<and>
        (\<exists>r \<in> set mixed_rows. sample_parse (raw_date (hd mixed_rows)) (raw_date r) = None)"
    by (simp add: read_first_def read_csv_def primary_only_def mixed_rows_def sample_parse_def
        sample_texts_def)
  with load_data_failure_collapses
         [where fs = "primary_only (Csv (Frame mixed_rows))" and parse = sample_parse
            and rows = mixed_rows]
  have 6: "load_data sample_parse (primary_only (Csv (Frame mixed_rows))) = Inr []" by blast
  from 1 2 3 4 5 6 show ?thesis by simp
qed

text \<open>
  C1, as the specification states it, fails: with no file at either path the loader does
  not fail, it returns the empty frame as a success; and with an unreadable file at the
  primary path it returns the very same value.
\<close>

theorem load_data_silent_empty_counterexample:
  "load_data sample_parse no_files = Inr [] \<and>
   load_data sample_parse (primary_only Unreadable) = Inr [] \<and>
   \<not> isl (load_data sample_parse no_files) \<and>
   \<not> isl (load_data sample_parse (primary_only Unreadable))"
  by (simp add: load_data_def load_body_def read_first_def read_csv_def no_files_def
      primary_only_def)

text \<open>
  C8. The loader reads the primary path first and the fallback path second. A readable
  file at the primary path whose dates pandas accepts is the one that is loaded: the
  result is its records, each with its derived columns, whatever is at the fallback
  path. Whenever something is at the primary path the fallback path is not consulted: the
  result does not depend on what is there, and an unreadable primary file gives the empty
  frame even beside a good fallback file. When the primary path is missing and the
  fallback path holds a file whose dates pandas accepts, loading yields exactly the
  records of the fallback file, each with its derived columns.
\<close>

theorem load_data_path_order:
  "(fs primary_path = Csv (Frame rows) \<and>
    map (\<lambda>r. parse (raw_date (hd rows)) (raw_date r)) rows = map Some ts
      \<longrightarrow> load_data parse fs = Inr (map (\<lambda>(r, t). derive r t) (zip rows ts))) \<and>
   (fs primary_path \<noteq> Absent \<longrightarrow> load_data parse (fs(fallback_path := x)) = load_data parse fs) \<and>
   (fs primary_path = Unreadable \<longrightarrow> load_data parse fs = Inr []) \<and>
   (fs primary_path = Absent \<and> fs fallback_path = Csv (Frame rows) \<and>
    map (\<lambda>r. parse (raw_date (hd rows)) (raw_date r)) rows = map Some ts
      \<longrightarrow> load_data parse fs = Inr (map (\<lambda>(r, t). derive r t) (zip rows ts)))"
proof -
  have 1: "load_data parse fs = Inr (map (\<lambda>(r, t). derive r t) (zip rows ts))"
    if "fs primary_path = Csv (Frame rows) \<and>
        map (\<lambda>r. parse (raw_date (hd rows)) (raw_date r)) rows = map Some ts"
    using that load_data_primary_file by blast
  have 2: "load_data parse (fs(fallback_path := x)) = load_data parse fs"
    if "fs primary_path \<noteq> Absent"
    using that paths_differ
    by (simp add: load_data_def load_body_def read_first_primary read_csv_def)
  have 3: "load_data parse fs = Inr []" if "fs primary_path = Unreadable"
    using that by (simp add: load_data_def load_body_def read_first_def read_csv_def)
  have 4: "load_data parse fs = Inr (map (\<lambda>(r, t). derive r t) (zip rows ts))"
    if "fs primary_path = Absent \<and> fs fallback_path = Csv (Frame rows) \<and>
        map (\<lambda>r. parse (raw_date (hd rows)) (raw_date r)) rows = map Some ts"
    using that load_data_fallback_file by blast
  from 1 2 3 4 show ?thesis by blast
qed

theorem load_data_path_order_witness:
  "load_data sample_parse (two_files (Csv (Frame scenario_rows)) (Csv (Frame same_day_rows))) =
     Inr scenario_df \<and>
   load_data sample_parse (two_files (Csv (Frame same_day_rows)) (Csv (Frame scenario_rows))) =
     Inr same_day_df \<and>
   load_data sample_parse (fallback_only (Csv (Frame scenario_rows))) = Inr scenario_df \<and>
   load_data sample_parse (fallback_only (Csv (Frame same_day_rows))) = Inr same_day_df \<and>
   load_data sample_parse
     ((primary_only (Csv (Frame scenario_rows))) (fallback_path := Csv (Frame same_day_rows))) =
     Inr scenario_df \<and>
   load_data sample_parse (two_files Unreadable (Csv (Frame scenario_rows))) = Inr [] \<and>
   scenario_df \<noteq> same_day_df \<and> scenario_df \<noteq> [] \<and> same_day_df \<noteq> []"
proof -
  let ?sc = "Csv (Frame scenario_rows)"
  let ?sd = "Csv (Frame same_day_rows)"
  let ?ts = "[((2024, 1, 1), (0, 0, 0, 0)), ((2024, 1, 1), (0, 0, 0, 0)), ((2024, 1, 2), (0, 0, 0, 0))]"
  let ?us = "[((2024, 1, 1), (9, 30, 0, 0)), ((2024, 1, 1), (17, 45, 0, 0))]"
  have "two_files ?sc ?sd primary_path = Csv (Frame scenario_rows)"
    by (simp add: two_files_def)
  with scenario_parsed
    load_data_path_order [where fs = "two_files ?sc ?sd" and rows = scenario_rows
      and parse = sample_parse and ts = ?ts]
  have "load_data sample_parse (two_files ?sc ?sd) =
        Inr (map (\<lambda>(r, t). derive r t) (zip scenario_rows ?ts))"
    by blast
  then have 1: "load_data sample_parse (two_files ?sc ?sd) = Inr scenario_df"
    by (simp only: scenario_derived)
  have "two_files ?sd ?sc primary_path = Csv (Frame same_day_rows)"
    by (simp add: two_files_def)
  with same_day_parsed
    load_data_path_order [where fs = "two_files ?sd ?sc" and rows = same_day_rows
      and parse = sample_parse and ts = ?us]
  have "load_data sample_parse (two_files ?sd ?sc) =
        Inr (map (\<lambda>(r, t). derive r t) (zip same_day_rows ?us))"
    by blast
  then have 2: "load_data sample_parse (two_files ?sd ?sc) = Inr same_day_df"
    by (simp only: same_day_derived)
  have "fallback_only ?sc primary_path = Absent \<and>
        fallback_only ?sc fallback_path = Csv (Frame scenario_rows)"
    using paths_differ by (simp add: fallback_only_def)
  with scenario_parsed
    load_data_path_order [where fs = "fallback_only ?sc" and rows = scenario_rows
      and parse = sample_parse and ts = ?ts]
  have "load_data sample_parse (fallback_only ?sc) =
        Inr (map (\<lambda>(r, t). derive r t) (zip scenario_rows ?ts))"
    by blast
  then have 3: "load_data sample_parse (fallback_only ?sc) = Inr scenario_df"
    by (simp only: scenario_derived)
  have "fallback_only ?sd primary_path = Absent \<and>
        fallback_only ?sd fallback_path = Csv (Frame same_day_rows)"
    using paths_differ by (simp add: fallback_only_def)
  with same_day_parsed
    load_data_path_order [where fs = "fallback_only ?sd" and rows = same_day_rows
      and parse = sample_parse and ts = ?us]
  have "load_data sample_parse (fallback_only ?sd) =
        Inr (map (\<lambda>(r, t). derive r t) (zip same_day_rows ?us))"
    by blast
  then have 4: "load_data sample_parse (fallback_only ?sd) = Inr same_day_df"
    by (simp only: same_day_derived)
  have p: "primary_only ?sc primary_path = Csv (Frame scenario_rows)"
    by (simp add: primary_only_def)
  then have "primary_only ?sc primary_path \<noteq> Absent" by simp
  with load_data_path_order [where fs = "primary_only ?sc" and parse = sample_parse and x = ?sd]
  have a: "load_data sample_parse ((primary_only ?sc) (fallback_path := ?sd)) =
           load_data sample_parse (primary_only ?sc)"
    by blast
  from p scenario_parsed
    load_data_path_order [where fs = "primary_only ?sc" and rows = scenario_rows
      and parse = sample_parse and ts = ?ts]
  have "load_data sample_parse (primary_only ?sc) =
        Inr (map (\<lambda>(r, t). derive r t) (zip scenario_rows ?ts))"
    by blast
  with a have 5: "load_data sample_parse ((primary_only ?sc) (fallback_path := ?sd)) =
                  Inr scenario_df"
    by (simp only: scenario_derived)
  have "two_files Unreadable ?sc primary_path = Unreadable"
    by (simp add: two_files_def)
  with load_data_path_order [where fs = "two_files Unreadable ?sc" and parse = sample_parse]
  have 6: "load_data sample_parse (two_files Unreadable ?sc) = Inr []"
    by blast
  have 7: "scenario_df \<noteq> same_day_df \<and> scenario_df \<noteq> [] \<and> same_day_df \<noteq> []"
    by (simp add: scenario_df_def same_day_df_def)
  from 1 2 3 4 5 6 7 show ?thesis by blast
qed

section \<open>The text of a date orders as the date does\<close>

lemma digit_table: "\<forall>k \<in> set [0..<10]. of_char (''0123456789'' ! k) = (48 + k :: nat)"
  by code_simp

lemma of_char_digit: "of_char (digit n) = (48 + n mod 10 :: nat)"
  using digit_table by (simp add: digit_def del: upt.simps nth_Cons_numeral)

lemma digit_less_iff: "digit a < digit b \<longleftrightarrow> a mod 10 < b mod 10"
  by (simp add: less_char_def of_char_digit)

lemma digit_eq_iff: "digit a = digit b \<longleftrightarrow> a mod 10 = b mod 10"
proof
  assume "digit a = digit b"
  then have "(of_char (digit a) :: nat) = of_char (digit b)" by simp
  then show "a mod 10 = b mod 10" by (simp add: of_char_digit)
next
  assume "a mod 10 = b mod 10"
  then show "digit a = digit b" by (simp add: digit_def)
qed

lemma lex_aux10:
  "ra < 10 \<Longrightarrow> rb < 10 \<Longrightarrow>
   (qa < qb \<or> qa = qb \<and> ra < rb) = (10 * qa + ra < 10 * qb + (rb::nat))"
  by arith

lemma lex_aux100:
  "ra < 100 \<Longrightarrow> rb < 100 \<Longrightarrow>
   (qa < qb \<or> qa = qb \<and> ra < rb) = (100 * qa + ra < 100 * qb + (rb::nat))"
  by arith

lemma lex10_less:
  "(a div 10 < b div 10 \<or> a div 10 = b div 10 \<and> a mod 10 < b mod 10) = (a < (b::nat))"
  using lex_aux10 [of "a mod 10" "b mod 10" "a div 10" "b div 10"] by simp

lemma lex10_eq: "(a div 10 = b div 10 \<and> a mod 10 = b mod 10) = (a = (b::nat))"
  by (metis div_mult_mod_eq)

lemma lex100_less:
  "(a div 100 < b div 100 \<or> a div 100 = b div 100 \<and> a mod 100 < b mod 100) = (a < (b::nat))"
  using lex_aux100 [of "a mod 100" "b mod 100" "a div 100" "b div 100"] by simp

lemma lex100_eq: "(a div 100 = b div 100 \<and> a mod 100 = b mod 100) = (a = (b::nat))"
  by (metis div_mult_mod_eq)

lemma pad2_le_iff:
  assumes "a < 100" and "b < 100"
  shows "pad2 a @ u \<le> pad2 b @ v \<longleftrightarrow> a < b \<or> a = b \<and> u \<le> v"
proof -
  have "a div 10 < 10" "b div 10 < 10" using assms by simp_all
  then have h: "a div 10 mod 10 = a div 10" "b div 10 mod 10 = b div 10" by simp_all
  have "pad2 a @ u \<le> pad2 b @ v \<longleftrightarrow>
        a div 10 < b div 10 \<or>
        a div 10 = b div 10 \<and> (a mod 10 < b mod 10 \<or> a mod 10 = b mod 10 \<and> u \<le> v)"
    unfolding pad2_def by (simp add: digit_less_iff digit_eq_iff h)
  also have "\<dots> \<longleftrightarrow>
        (a div 10 < b div 10 \<or> a div 10 = b div 10 \<and> a mod 10 < b mod 10) \<or>
        (a div 10 = b div 10 \<and> a mod 10 = b mod 10) \<and> u \<le> v"
    by blast
  finally show ?thesis unfolding lex10_less lex10_eq .
qed

lemma pad4_pad2: "pad4 y = pad2 (y div 100) @ pad2 (y mod 100)"
proof -
  have 1: "digit (y div 100 div 10) = digit (y div 1000)"
    by (simp add: div_mult2_eq [symmetric])
  have "y mod (10 * 10) = 10 * (y div 10 mod 10) + y mod 10"
    by (rule mod_mult2_eq)
  then have "y mod 100 div 10 = y div 10 mod 10" by simp
  then have 2: "digit (y mod 100 div 10) = digit (y div 10)"
    by (simp add: digit_eq_iff)
  have 3: "digit (y mod 100) = digit y"
    by (simp add: digit_eq_iff mod_mod_cancel)
  show ?thesis by (simp add: pad4_def pad2_def 1 2 3)
qed

lemma pad4_le_iff:
  assumes "a < 10000" and "b < 10000"
  shows "pad4 a @ u \<le> pad4 b @ v \<longleftrightarrow> a < b \<or> a = b \<and> u \<le> v"
proof -
  have b: "a div 100 < 100" "b div 100 < 100" "a mod 100 < 100" "b mod 100 < 100"
    using assms by simp_all
  have "pad4 a @ u \<le> pad4 b @ v \<longleftrightarrow>
        a div 100 < b div 100 \<or>
        a div 100 = b div 100 \<and> pad2 (a mod 100) @ u \<le> pad2 (b mod 100) @ v"
    using pad2_le_iff [OF b(1) b(2)] by (simp add: pad4_pad2)
  also have "\<dots> \<longleftrightarrow>
        (a div 100 < b div 100 \<or> a div 100 = b div 100 \<and> a mod 100 < b mod 100) \<or>
        (a div 100 = b div 100 \<and> a mod 100 = b mod 100) \<and> u \<le> v"
    unfolding pad2_le_iff [OF b(3) b(4)] by blast
  finally show ?thesis unfolding lex100_less lex100_eq .
qed

lemma str_date_le_iff:
  assumes "valid_date a" and "valid_date b"
  shows "str_date a \<le> str_date b \<longleftrightarrow> a \<le> b"
proof -
  obtain y m d where a: "a = (y, m, d)" by (cases a) auto
  obtain y' m' d' where b: "b = (y', m', d')" by (cases b) auto
  have bounds: "y < 10000" "y' < 10000" "m < 100" "m' < 100" "d < 100" "d' < 100"
    using assms by (simp_all add: valid_date_def a b)
  have e: "pad2 d \<le> pad2 d' \<longleftrightarrow> d \<le> d'"
    using pad2_le_iff [OF bounds(5) bounds(6), of "[]" "[]"] by auto
  have "str_date a \<le> str_date b \<longleftrightarrow>
        y < y' \<or>
        y = y' \<and> CHR ''-'' # pad2 m @ CHR ''-'' # pad2 d \<le> CHR ''-'' # pad2 m' @ CHR ''-'' # pad2 d'"
    using pad4_le_iff [OF bounds(1) bounds(2)] by (simp add: a b str_date_def)
  also have "\<dots> \<longleftrightarrow> y < y' \<or> y = y' \<and> (m < m' \<or> m = m' \<and> pad2 d \<le> pad2 d')"
    by (simp add: pad2_le_iff [OF bounds(3) bounds(4)])
  also have "\<dots> \<longleftrightarrow> (y, m, d) \<le> (y', m', d')"
    unfolding e by auto
  finally show ?thesis by (simp only: a b)
qed

lemma str_date_eq_iff:
  assumes "valid_date a" and "valid_date b"
  shows "str_date a = str_date b \<longleftrightarrow> a = b"
proof -
  have "str_date a = str_date b \<longleftrightarrow> str_date a \<le> str_date b \<and> str_date b \<le> str_date a"
    by (rule order_eq_iff)
  also have "\<dots> \<longleftrightarrow> a \<le> b \<and> b \<le> a"
    by (simp only: str_date_le_iff [OF assms] str_date_le_iff [OF assms(2) assms(1)])
  also have "\<dots> \<longleftrightarrow> a = b"
    by (rule order_eq_iff [symmetric])
  finally show ?thesis .
qed

section \<open>The filter is a conjunction of three predicates\<close>

lemma zip_self: "zip xs xs = map (\<lambda>x. (x, x)) xs"
  by (induction xs) auto

lemma and_mask_map: "and_mask (map P df) (map Q df) = map (\<lambda>r. P r \<and> Q r) df"
  by (simp add: and_mask_def zip_map_map zip_self)

lemma isin_map: "isin (map f df) vs = map (\<lambda>r. f r \<in> set vs) df"
  by (simp add: isin_def)

lemma loc_map: "loc df (map P df) = filter P df"
  by (induction df) (auto simp: loc_def)

lemma date_mask_map:
  "one_or_two_dates dates \<Longrightarrow> date_mask df dates = SeriesMask (map (date_predicate dates) df)"
  by (induction df dates rule: date_mask.induct) (simp_all add: and_mask_map)

lemma date_mask_list:
  "\<not> one_or_two_dates dates \<Longrightarrow> date_mask df dates = ListMask (replicate (length df) True)"
  by (induction df dates rule: date_mask.induct) simp_all

lemma filtered_df_filter:
  assumes "one_or_two_dates dates"
  shows "filtered_df df dates zones crimes =
    Inr (filter (\<lambda>r. date_predicate dates r \<and> zone r \<in> set zones \<and> crime_type r \<in> set crimes) df)"
  by (cases "df = []")
    (simp_all add: filtered_df_def iand_def date_mask_map [OF assms] isin_map and_mask_map loc_map)

lemma filtered_df_type_error:
  assumes "\<not> one_or_two_dates dates" and "df \<noteq> []"
  shows "filtered_df df dates zones crimes = Inl TypeError"
  using assms(2) by (simp add: filtered_df_def iand_def date_mask_list [OF assms(1)])



section \<open>Frequency tables, modes and grouped counts\<close>

lemma tally_snoc: "tally (xs @ [x]) = incr x (tally xs)"
  by (simp add: tally_def)

lemma tally_Nil: "tally [] = []"
  by (simp add: tally_def)

lemma map_of_incr:
  "map_of (incr k t) k' =
   (if k' = k then Some (case map_of t k of None \<Rightarrow> 1 | Some c \<Rightarrow> Suc c) else map_of t k')"
  by (induction k t rule: incr.induct) auto

lemma keys_incr:
  "map fst (incr k t) = (if k \<in> set (map fst t) then map fst t else map fst t @ [k])"
  by (induction k t rule: incr.induct) auto


lemma keys_tally: "set (map fst (tally xs)) = set xs"
  by (induction xs rule: rev_induct) (auto simp: tally_Nil tally_snoc keys_incr)

lemma distinct_tally: "distinct (map fst (tally xs))"
  by (induction xs rule: rev_induct) (auto simp: tally_Nil tally_snoc keys_incr)

lemma map_of_tally:
  "map_of (tally xs) k = (if k \<in> set xs then Some (count_list xs k) else None)"
  by (induction xs rule: rev_induct) (auto simp: tally_Nil tally_snoc map_of_incr)


lemma tally_member:
  "(k, c) \<in> set (tally xs) \<longleftrightarrow> k \<in> set xs \<and> c = count_list xs k"
proof -
  have "((k, c) \<in> set (tally xs)) = (map_of (tally xs) k = Some c)"
    using distinct_tally [of xs] by simp
  also have "\<dots> = (k \<in> set xs \<and> c = count_list xs k)"
    unfolding map_of_tally by auto
  finally show ?thesis .
qed

lemma tally_eq_map: "tally xs = map (\<lambda>k. (k, count_list xs k)) (map fst (tally xs))"
proof -
  have "\<And>p. p \<in> set (tally xs) \<Longrightarrow> (fst p, count_list xs (fst p)) = p"
    using tally_member [of _ _ xs] by (metis prod.collapse)
  then have "map (\<lambda>p. (fst p, count_list xs (fst p))) (tally xs) = tally xs"
    by (rule map_idI)
  then show ?thesis by (simp add: comp_def)
qed


lemma fold_max_Max: "fold max ns (a::nat) = Max (set (a # ns))"
  by (simp only: Max.set_eq_fold)

lemma counts_tally: "set (map snd (tally xs)) = count_list xs ` set xs"
proof -
  have "set (tally xs) = (\<lambda>k. (k, count_list xs k)) ` set xs"
    using tally_member [of _ _ xs] by auto
  then show ?thesis by (simp add: image_image)
qed

lemma max_count:
  assumes "xs \<noteq> []"
  shows "fold max (map snd (tally xs)) 0 = Max (count_list xs ` set xs)"
proof -
  have ne: "count_list xs ` set xs \<noteq> {}" using assms by simp
  have "fold max (map snd (tally xs)) 0 = Max (insert 0 (count_list xs ` set xs))"
    by (simp add: fold_max_Max counts_tally del: set_map)
  also have "\<dots> = Max (count_list xs ` set xs)"
    using ne by (simp add: Max_insert del: Max_insert2)
  finally show ?thesis .
qed

lemma modal_set:
  "{v \<in> set xs. count_list xs v = Max (count_list xs ` set xs)} =
   {v \<in> set xs. \<forall>w \<in> set xs. count_list xs w \<le> count_list xs v}"
proof -
  let ?M = "Max (count_list xs ` set xs)"
  have a: "count_list xs w \<le> ?M" if "w \<in> set xs" for w
    using that by simp
  have b: "count_list xs v = ?M"
    if "v \<in> set xs" and "\<forall>w \<in> set xs. count_list xs w \<le> count_list xs v" for v
    by (rule Max_eqI [symmetric]) (use that in auto)
  show ?thesis using a b by (intro set_eqI iffI) auto
qed

lemma modal_set_nonempty:
  assumes "xs \<noteq> []"
  shows "{v \<in> set xs. count_list xs v = Max (count_list xs ` set xs)} \<noteq> {}"
proof -
  have "Max (count_list xs ` set xs) \<in> count_list xs ` set xs"
    using assms by (intro Max_in) auto
  then show ?thesis by auto
qed

lemma set_mode:
  assumes "xs \<noteq> []"
  shows "set (mode xs) = {v \<in> set xs. count_list xs v = Max (count_list xs ` set xs)}"
proof -
  have "set (mode xs) = {k. \<exists>c. (k, c) \<in> set (tally xs) \<and> c = Max (count_list xs ` set xs)}"
    by (force simp: mode_def Let_def max_count [OF assms])
  then show ?thesis by (auto simp: tally_member)
qed

lemma sorted_mode: "sorted (mode xs)"
  by (simp add: mode_def Let_def)

lemma hd_sorted_Min:
  "sorted ys \<Longrightarrow> ys \<noteq> [] \<Longrightarrow> hd ys = Min (set ys)"
  by (cases ys) (auto intro!: Min_eqI [symmetric])

lemma getitem0_mode:
  assumes "xs \<noteq> []"
  shows "getitem0 (mode xs) = Inr (lowest_modal xs)"
proof -
  have ne: "mode xs \<noteq> []"
    using set_mode [OF assms] modal_set_nonempty [OF assms] by auto
  then have "getitem0 (mode xs) = Inr (hd (mode xs))"
    by (cases "mode xs") (simp_all add: getitem0_def)
  also have "hd (mode xs) = Min (set (mode xs))"
    using sorted_mode ne by (rule hd_sorted_Min)
  also have "set (mode xs) = {v \<in> set xs. \<forall>w \<in> set xs. count_list xs w \<le> count_list xs v}"
    using set_mode [OF assms] modal_set [of xs] by simp
  finally show ?thesis by (simp add: lowest_modal_def)
qed







lemma insort_key_map:
  "insort_key f (g x) (map g ys) = map g (insort_key (\<lambda>y. f (g y)) x ys)"
  by (induction ys) auto

lemma sort_key_map: "sort_key f (map g ys) = map g (sort_key (\<lambda>y. f (g y)) ys)"
  by (induction ys) (auto simp: insort_key_map)

lemma sort_distinct: "distinct ks \<Longrightarrow> sort ks = sorted_list_of_set (set ks)"
  by (simp add: sorted_list_of_set_sort_remdups distinct_remdups_id)

lemma groupby_size_eq:
  "groupby_size xs = map (\<lambda>k. (k, count_list xs k)) (sorted_list_of_set (set xs))"
proof -
  let ?g = "\<lambda>k. (k, count_list xs k)"
  have "groupby_size xs = sort_key fst (map ?g (map fst (tally xs)))"
    using tally_eq_map [of xs] by (simp add: groupby_size_def)
  also have "\<dots> = map ?g (sort (map fst (tally xs)))"
    by (simp add: sort_key_map)
  also have "sort (map fst (tally xs)) = sorted_list_of_set (set xs)"
    using sort_distinct [OF distinct_tally [of xs]] by (simp only: keys_tally)
  finally show ?thesis .
qed

lemma kpis_rendered:
  assumes "fdf \<noteq> []"
  shows "kpis fdf = Rendered
           \<lparr> total_kpi = length fdf,
             risk_zone = lowest_modal (map zone fdf),
             primary_code = lowest_modal (map crime_type fdf),
             peak_h = str_nat (lowest_modal (map hour fdf)) @ '':00'',
             counts = value_counts (map crime_type fdf),
             trend = groupby_size (map date fdf) \<rparr>"
  using assms by (simp add: kpis_def getitem0_mode)



lemma app_renders:
  "load_data parse fs = Inr df \<Longrightarrow> filtered_df df dates zones crimes = Inr v \<Longrightarrow> v \<noteq> [] \<Longrightarrow>
   app parse fs dates zones crimes = kpis v"
  by (simp add: app_def)

lemma app_raises:
  "load_data parse fs = Inr df \<Longrightarrow> filtered_df df dates zones crimes = Inl e \<Longrightarrow>
   app parse fs dates zones crimes = Raised e"
  by (simp add: app_def)





section \<open>The sample inputs, evaluated\<close>

lemma one_day_range: "one_or_two_dates (DateTuple [(2024, 1, 1), (2024, 1, 1)])"
  by simp

lemma filtered_scenario:
  "filtered_df scenario_df (DateTuple [(2024, 1, 1), (2024, 1, 1)]) [''A'', ''B'']
     [''theft'', ''assault''] = Inr (take 2 scenario_df)"
  by (simp add: filtered_df_filter scenario_df_def str_date_def pad4_def pad2_def digit_def)

lemma filtered_same_day:
  "filtered_df same_day_df (DateTuple [(2024, 1, 1), (2024, 1, 1)]) [''A'', ''B''] [''theft''] =
   Inr same_day_df"
  by (simp add: filtered_df_filter same_day_df_def str_date_def pad4_def pad2_def digit_def)

lemma filtered_timed:
  "filtered_df timed_df (DateTuple [(2024, 1, 1), (2024, 1, 1)]) [''A'', ''B'']
     [''theft'', ''assault''] = Inr (take 2 timed_df)"
  by (simp add: filtered_df_filter timed_df_def str_date_def pad4_def pad2_def digit_def)

lemma scenario_df_not_Nil: "scenario_df \<noteq> []"
  by (simp add: scenario_df_def)

lemma kpis_scenario:
  "kpis (take 2 scenario_df) = Rendered
      \<lparr> total_kpi = 2, risk_zone = ''A'', primary_code = ''theft'', peak_h = ''0:00'',
        counts = [(''theft'', 2)], trend = [(((2024, 1, 1), (0, 0, 0, 0)), 2)] \<rparr>"
  by (simp add: kpis_def scenario_df_def mode_def tally_def getitem0_def value_counts_def
      groupby_size_def str_nat.simps digit_def)

lemma kpis_same_day:
  "kpis same_day_df = Rendered
      \<lparr> total_kpi = 2, risk_zone = ''A'', primary_code = ''theft'', peak_h = ''9:00'',
        counts = [(''theft'', 2)],
        trend = [(((2024, 1, 1), (9, 30, 0, 0)), 1), (((2024, 1, 1), (17, 45, 0, 0)), 1)] \<rparr>"
  by (simp add: kpis_def same_day_df_def mode_def tally_def getitem0_def value_counts_def
      groupby_size_def str_nat.simps digit_def)

lemma kpis_tied:
  "kpis tied_df = Rendered
      \<lparr> total_kpi = 4, risk_zone = ''A'', primary_code = ''assault'', peak_h = ''9:00'',
        counts = [(''theft'', 2), (''assault'', 2)],
        trend = [(((2024, 1, 1), (9, 30, 0, 0)), 1), (((2024, 1, 1), (17, 45, 0, 0)), 1),
                 (((2024, 1, 2), (9, 30, 0, 0)), 1), (((2024, 1, 2), (17, 45, 0, 0)), 1)] \<rparr>"
  by (simp add: kpis_def tied_df_def mode_def tally_def getitem0_def value_counts_def
      groupby_size_def str_nat.simps digit_def)


lemma daily_series_same_day: "daily_series same_day_df = [(''2024-01-01'', 2)]"
  by (simp add: daily_series_def same_day_df_def)

lemma daily_series_scenario: "daily_series (take 2 scenario_df) = [(''2024-01-01'', 2)]"
  by (simp add: daily_series_def scenario_df_def)

lemma groupby_size_remdups:
  "groupby_size xs = map (\<lambda>k. (k, count_list xs k)) (sort (remdups xs))"
  by (simp only: groupby_size_eq sorted_list_of_set_sort_remdups)

lemma modal_set_finite:
  "finite {v \<in> set xs. \<forall>w \<in> set xs. count_list xs w \<le> count_list xs v}"
  by simp

lemma modal_set_inhabited:
  assumes "xs \<noteq> []"
  shows "{v \<in> set xs. \<forall>w \<in> set xs. count_list xs w \<le> count_list xs v} \<noteq> {}"
proof -
  have "{v \<in> set xs. count_list xs v = Max (count_list xs ` set xs)} \<noteq> {}"
    using assms by (rule modal_set_nonempty)
  then show ?thesis unfolding modal_set .
qed

lemma lowest_modal_in:
  assumes "xs \<noteq> []"
  shows "lowest_modal xs \<in> {v \<in> set xs. \<forall>w \<in> set xs. count_list xs w \<le> count_list xs v}"
  unfolding lowest_modal_def
  using modal_set_finite modal_set_inhabited [OF assms] by (rule Min_in)

lemma lowest_modal_le:
  assumes "v \<in> set xs" and "\<forall>w \<in> set xs. count_list xs w \<le> count_list xs v"
  shows "lowest_modal xs \<le> v"
  unfolding lowest_modal_def
  using assms by (intro Min_le) simp_all

lemma kpis_timed:
  "kpis (take 2 timed_df) = Rendered
      \<lparr> total_kpi = 2, risk_zone = ''A'', primary_code = ''theft'', peak_h = ''9:00'',
        counts = [(''theft'', 2)],
        trend = [(((2024, 1, 1), (9, 30, 0, 0)), 1), (((2024, 1, 1), (17, 45, 0, 0)), 1)] \<rparr>"
  by (simp add: kpis_def timed_df_def mode_def tally_def getitem0_def value_counts_def
      groupby_size_def str_nat.simps digit_def)

lemma load_data_scenario:
  "load_data sample_parse (primary_only (Csv (Frame scenario_rows))) = Inr scenario_df"
  by (simp add: load_data_def load_body_scenario_primary)

lemma load_data_same_day:
  "load_data sample_parse (primary_only (Csv (Frame same_day_rows))) = Inr same_day_df"
  by (simp add: load_data_def load_body_same_day_primary)

lemma load_data_timed:
  "load_data sample_parse (primary_only (Csv (Frame timed_rows))) = Inr timed_df"
  by (simp add: load_data_def load_body_timed_primary)


lemma same_day_df_not_Nil: "same_day_df \<noteq> []"
  by (simp add: same_day_df_def)

lemma tied_df_not_Nil: "tied_df \<noteq> []"
  by (simp add: tied_df_def)

lemma timed_df_not_Nil: "timed_df \<noteq> []"
  by (simp add: timed_df_def)

lemma app_scenario:
  "app sample_parse (primary_only (Csv (Frame scenario_rows)))
     (DateTuple [(2024, 1, 1), (2024, 1, 1)]) [''A'', ''B''] [''theft'', ''assault''] =
   Rendered
      \<lparr> total_kpi = 2, risk_zone = ''A'', primary_code = ''theft'', peak_h = ''0:00'',
        counts = [(''theft'', 2)], trend = [(((2024, 1, 1), (0, 0, 0, 0)), 2)] \<rparr>"
proof -
  have ne: "take 2 scenario_df \<noteq> []"
    by (simp add: scenario_df_def)
  have "app sample_parse (primary_only (Csv (Frame scenario_rows)))
          (DateTuple [(2024, 1, 1), (2024, 1, 1)]) [''A'', ''B''] [''theft'', ''assault''] =
        kpis (take 2 scenario_df)"
    using load_data_scenario filtered_scenario ne by (rule app_renders)
  then show ?thesis by (simp only: kpis_scenario)
qed

lemma app_same_day:
  "app sample_parse (primary_only (Csv (Frame same_day_rows)))
     (DateTuple [(2024, 1, 1), (2024, 1, 1)]) [''A'', ''B''] [''theft''] =
   Rendered
      \<lparr> total_kpi = 2, risk_zone = ''A'', primary_code = ''theft'', peak_h = ''9:00'',
        counts = [(''theft'', 2)],
        trend = [(((2024, 1, 1), (9, 30, 0, 0)), 1), (((2024, 1, 1), (17, 45, 0, 0)), 1)] \<rparr>"
proof -
  have "app sample_parse (primary_only (Csv (Frame same_day_rows)))
          (DateTuple [(2024, 1, 1), (2024, 1, 1)]) [''A'', ''B''] [''theft''] =
        kpis same_day_df"
    using load_data_same_day filtered_same_day same_day_df_not_Nil by (rule app_renders)
  then show ?thesis by (simp only: kpis_same_day)
qed

lemma app_timed:
  "app sample_parse (primary_only (Csv (Frame timed_rows)))
     (DateTuple [(2024, 1, 1), (2024, 1, 1)]) [''A'', ''B''] [''theft'', ''assault''] =
   Rendered
      \<lparr> total_kpi = 2, risk_zone = ''A'', primary_code = ''theft'', peak_h = ''9:00'',
        counts = [(''theft'', 2)],
        trend = [(((2024, 1, 1), (9, 30, 0, 0)), 1), (((2024, 1, 1), (17, 45, 0, 0)), 1)] \<rparr>"
proof -
  have ne: "take 2 timed_df \<noteq> []"
    by (simp add: timed_df_def)
  have "app sample_parse (primary_only (Csv (Frame timed_rows)))
          (DateTuple [(2024, 1, 1), (2024, 1, 1)]) [''A'', ''B''] [''theft'', ''assault''] =
        kpis (take 2 timed_df)"
    using load_data_timed filtered_timed ne by (rule app_renders)
  then show ?thesis by (simp only: kpis_timed)
qed


section \<open>Claims about the aggregates\<close>



text \<open>
  C5. For every non-empty filtered view, each of the three mode computations returns the
  lowest of the values that occur most often in its column: the value returned occurs in
  the column, no value of the column occurs more often, and it is below every other value
  that occurs as often. The zone, the crime type and the hour of the KPI cards are all
  taken by that one rule.
\<close>

theorem mode_lowest_of_tied:
  "(xs \<noteq> [] \<longrightarrow>
      getitem0 (mode xs) = Inr (lowest_modal xs) \<and>
      lowest_modal xs \<in> set xs \<and>
      (\<forall>w \<in> set xs. count_list xs w \<le> count_list xs (lowest_modal xs)) \<and>
      (\<forall>v \<in> set xs. (\<forall>w \<in> set xs. count_list xs w \<le> count_list xs v)
          \<longrightarrow> lowest_modal xs \<le> v)) \<and>
   (fdf \<noteq> [] \<longrightarrow>
      kpis fdf = Rendered
        \<lparr> total_kpi = length fdf,
          risk_zone = lowest_modal (map zone fdf),
          primary_code = lowest_modal (map crime_type fdf),
          peak_h = str_nat (lowest_modal (map hour fdf)) @ '':00'',
          counts = value_counts (map crime_type fdf),
          trend = groupby_size (map date fdf) \<rparr>)"
proof -
  have a: "getitem0 (mode xs) = Inr (lowest_modal xs) \<and>
      lowest_modal xs \<in> set xs \<and>
      (\<forall>w \<in> set xs. count_list xs w \<le> count_list xs (lowest_modal xs)) \<and>
      (\<forall>v \<in> set xs. (\<forall>w \<in> set xs. count_list xs w \<le> count_list xs v)
          \<longrightarrow> lowest_modal xs \<le> v)" if ne: "xs \<noteq> []"
    using getitem0_mode [OF ne] lowest_modal_in [OF ne] lowest_modal_le [of _ xs] by blast
  have b: "kpis fdf = Rendered
        \<lparr> total_kpi = length fdf,
          risk_zone = lowest_modal (map zone fdf),
          primary_code = lowest_modal (map crime_type fdf),
          peak_h = str_nat (lowest_modal (map hour fdf)) @ '':00'',
          counts = value_counts (map crime_type fdf),
          trend = groupby_size (map date fdf) \<rparr>" if "fdf \<noteq> []"
    using that by (rule kpis_rendered)
  from a b show ?thesis by blast
qed

theorem mode_lowest_of_tied_witness:
  "getitem0 (mode [''B'', ''A'', ''B'', ''A'', ''C'']) = Inr ''A'' \<and>
   lowest_modal [''B'', ''A'', ''B'', ''A'', ''C''] = ''A'' \<and>
   lowest_modal (map zone tied_df) = ''A'' \<and>
   lowest_modal (map crime_type tied_df) = ''assault'' \<and>
   str_nat (lowest_modal (map hour tied_df)) @ '':00'' = ''9:00''"
proof -
  let ?xs = "[''B'', ''A'', ''B'', ''A'', ''C'']"
  have e: "getitem0 (mode ?xs) = Inr ''A''"
    by (simp add: mode_def tally_def getitem0_def)
  have "?xs \<noteq> []" by simp
  with mode_lowest_of_tied [where xs = ?xs]
  have "getitem0 (mode ?xs) = Inr (lowest_modal ?xs)" by blast
  with e have 1: "lowest_modal ?xs = ''A''" by simp
  from tied_df_not_Nil mode_lowest_of_tied [where fdf = tied_df]
  have "kpis tied_df = Rendered
        \<lparr> total_kpi = length tied_df,
          risk_zone = lowest_modal (map zone tied_df),
          primary_code = lowest_modal (map crime_type tied_df),
          peak_h = str_nat (lowest_modal (map hour tied_df)) @ '':00'',
          counts = value_counts (map crime_type tied_df),
          trend = groupby_size (map date tied_df) \<rparr>"
    by blast
  then have 2: "lowest_modal (map zone tied_df) = ''A'' \<and>
     lowest_modal (map crime_type tied_df) = ''assault'' \<and>
     str_nat (lowest_modal (map hour tied_df)) @ '':00'' = ''9:00''"
    unfolding kpis_tied by simp
  from e 1 2 show ?thesis by simp
qed

text \<open>
  C6, as the specification states it, fails: the trend table is grouped by the \<open>date\<close>
  column, which holds the full timestamp, not by the \<open>day\<close> column. Two records of the first
  of January 2024, one of 09:30 and one of 17:45, filtered with the range from that day to
  that day, give a trend of two entries of count 1, where the daily series of the
  specification has the single entry of that day with count 2.
\<close>

theorem trend_not_daily_counterexample:
  "load_data sample_parse (primary_only (Csv (Frame same_day_rows))) = Inr same_day_df \<and>
   filtered_df same_day_df (DateTuple [(2024, 1, 1), (2024, 1, 1)]) [''A'', ''B''] [''theft''] =
     Inr same_day_df \<and>
   app sample_parse (primary_only (Csv (Frame same_day_rows)))
     (DateTuple [(2024, 1, 1), (2024, 1, 1)]) [''A'', ''B''] [''theft''] =
   Rendered
      \<lparr> total_kpi = 2, risk_zone = ''A'', primary_code = ''theft'', peak_h = ''9:00'',
        counts = [(''theft'', 2)],
        trend = [(((2024, 1, 1), (9, 30, 0, 0)), 1), (((2024, 1, 1), (17, 45, 0, 0)), 1)] \<rparr> \<and>
   map day same_day_df = [''2024-01-01'', ''2024-01-01''] \<and>
   daily_series same_day_df = [(''2024-01-01'', 2)]"
proof -
  have "map day same_day_df = [''2024-01-01'', ''2024-01-01'']"
    by (simp add: same_day_df_def)
  with load_data_same_day filtered_same_day app_same_day daily_series_same_day
  show ?thesis by (intro conjI)
qed

text \<open>
  C6, as the code has it. For every non-empty filtered view, the trend table maps each
  distinct timestamp of the view (the date together with the time of day) to the number
  of records that bear it, and its entries are in ascending chronological order, each
  timestamp once. It is the daily series of the specification with the timestamp in the
  place of the day; records of one day with different times of day are counted apart.
\<close>

theorem trend_by_timestamp:
  "fdf \<noteq> [] \<longrightarrow>
     (\<exists>d. kpis fdf = Rendered d \<and>
        trend d = map (\<lambda>t. (t, count_list (map date fdf) t)) (sort (remdups (map date fdf))) \<and>
        set (map fst (trend d)) = date ` set fdf \<and>
        sorted (map fst (trend d)) \<and>
        distinct (map fst (trend d)))"
proof
  assume ne: "fdf \<noteq> []"
  let ?ts = "sort (remdups (map date fdf))"
  let ?tr = "map (\<lambda>t. (t, count_list (map date fdf) t)) ?ts"
  let ?d = "\<lparr> total_kpi = length fdf,
             risk_zone = lowest_modal (map zone fdf),
             primary_code = lowest_modal (map crime_type fdf),
             peak_h = str_nat (lowest_modal (map hour fdf)) @ '':00'',
             counts = value_counts (map crime_type fdf),
             trend = ?tr \<rparr>"
  have k: "kpis fdf = Rendered ?d"
    using kpis_rendered [OF ne] by (simp only: groupby_size_remdups)
  have f: "map fst ?tr = ?ts"
    by (simp add: comp_def)
  have "trend ?d = ?tr" by simp
  moreover have "set (map fst (trend ?d)) = date ` set fdf"
    using f by simp
  moreover have "sorted (map fst (trend ?d))"
    using f by simp
  moreover have "distinct (map fst (trend ?d))"
    using f by simp
  ultimately show "\<exists>d. kpis fdf = Rendered d \<and>
        trend d = ?tr \<and>
        set (map fst (trend d)) = date ` set fdf \<and>
        sorted (map fst (trend d)) \<and>
        distinct (map fst (trend d))"
    using k by blast
qed

theorem trend_by_timestamp_witness:
  "same_day_df \<noteq> [] \<and>
   (\<exists>d. kpis same_day_df = Rendered d \<and>
      trend d = [(((2024, 1, 1), (9, 30, 0, 0)), 1), (((2024, 1, 1), (17, 45, 0, 0)), 1)])"
proof -
  have e: "map (\<lambda>t. (t, count_list (map date same_day_df) t))
             (sort (remdups (map date same_day_df))) =
           [(((2024, 1, 1), (9, 30, 0, 0)), 1), (((2024, 1, 1), (17, 45, 0, 0)), 1)]"
    by (simp add: same_day_df_def)
  from same_day_df_not_Nil trend_by_timestamp [where fdf = same_day_df]
  obtain d where "kpis same_day_df = Rendered d"
    and "trend d = map (\<lambda>t. (t, count_list (map date same_day_df) t))
                     (sort (remdups (map date same_day_df)))"
    by blast
  with e same_day_df_not_Nil show ?thesis by auto
qed

section \<open>Claims about the empty view\<close>







section \<open>Claims about the filter\<close>

lemma groupby_size_pair:
  "groupby_size [a, b] =
   (if a = b then [(a, 2)] else if a < b then [(a, 1), (b, 1)] else [(b, 1), (a, 1)])"
  by (auto simp: groupby_size_def tally_def)

lemma lowest_modal_theft: "lowest_modal [''theft'', ''theft''] = ''theft''"
proof -
  have "getitem0 (mode [''theft'', ''theft'']) = Inr ''theft''"
    by (simp add: mode_def tally_def getitem0_def)
  moreover have "getitem0 (mode [''theft'', ''theft'']) = Inr (lowest_modal [''theft'', ''theft''])"
    by (rule getitem0_mode) simp
  ultimately show ?thesis by simp
qed

text \<open>
  C3. For one date or two the date mask of the script is the date predicate of the
  specification applied to every record: a single date, given alone or as a tuple of one,
  matches the records whose day is the text of that date; a pair matches the records
  whose day lies between the texts of its two ends, both ends included, so that every
  record of the filtered view lies in the range and every record of the range that passes
  the other two filters is in the view. The script compares the texts of the dates; for
  the dates that \<open>datetime.date\<close> admits, the order and the equality of the texts are the
  order and the equality of the calendar. For no date at all the script does set the mask
  to match every record, \<open>[True] * len(df)\<close>, but as a Python list, and the next line,
  \<open>mask &= df['zone'].isin(zones)\<close>, raises \<open>TypeError\<close> on it: with a frame loaded and no
  date supplied the run ends in that exception and no record is matched.
\<close>

theorem date_mask_predicate:
  "(one_or_two_dates dates \<longrightarrow> date_mask df dates = SeriesMask (map (date_predicate dates) df)) \<and>
   date_mask df (DateValue d) = SeriesMask (map (\<lambda>r. day r = str_date d) df) \<and>
   date_mask df (DateTuple [d]) = SeriesMask (map (\<lambda>r. day r = str_date d) df) \<and>
   date_mask df (DateTuple [s, e]) =
     SeriesMask (map (\<lambda>r. str_date s \<le> day r \<and> day r \<le> str_date e) df) \<and>
   (\<exists>v. filtered_df df (DateTuple [s, e]) zones crimes = Inr v \<and>
      (\<forall>r \<in> set v. str_date s \<le> day r \<and> day r \<le> str_date e) \<and>
      (\<forall>r \<in> set df.
         str_date s \<le> day r \<and> day r \<le> str_date e \<and> zone r \<in> set zones \<and>
         crime_type r \<in> set crimes \<longrightarrow> r \<in> set v)) \<and>
   (valid_date s \<and> valid_date e \<and> valid_date c \<longrightarrow>
      (str_date c = str_date s) = (c = s) \<and>
      (str_date s \<le> str_date c \<and> str_date c \<le> str_date e) = (s \<le> c \<and> c \<le> e)) \<and>
   date_mask df (DateTuple []) = ListMask (replicate (length df) True) \<and>
   (df \<noteq> [] \<longrightarrow> filtered_df df (DateTuple []) zones crimes = Inl TypeError) \<and>
   (load_data parse fs = Inr df \<and> df \<noteq> [] \<longrightarrow>
      app parse fs (DateTuple []) zones crimes = Raised TypeError)"
proof -
  have 1: "date_mask df dates = SeriesMask (map (date_predicate dates) df)"
    if "one_or_two_dates dates"
    using that by (rule date_mask_map)
  have 2: "date_mask df (DateValue d) = SeriesMask (map (\<lambda>r. day r = str_date d) df)"
    by simp
  have 3: "date_mask df (DateTuple [d]) = SeriesMask (map (\<lambda>r. day r = str_date d) df)"
    by simp
  have 4: "date_mask df (DateTuple [s, e]) =
     SeriesMask (map (\<lambda>r. str_date s \<le> day r \<and> day r \<le> str_date e) df)"
    by (simp add: and_mask_map)
  let ?v = "filter (\<lambda>r. date_predicate (DateTuple [s, e]) r \<and> zone r \<in> set zones \<and>
                        crime_type r \<in> set crimes) df"
  have "filtered_df df (DateTuple [s, e]) zones crimes = Inr ?v"
    by (simp add: filtered_df_filter)
  moreover have "\<forall>r \<in> set ?v. str_date s \<le> day r \<and> day r \<le> str_date e"
    by simp
  moreover have "\<forall>r \<in> set df.
         str_date s \<le> day r \<and> day r \<le> str_date e \<and> zone r \<in> set zones \<and>
         crime_type r \<in> set crimes \<longrightarrow> r \<in> set ?v"
    by simp
  ultimately have 5: "\<exists>v. filtered_df df (DateTuple [s, e]) zones crimes = Inr v \<and>
      (\<forall>r \<in> set v. str_date s \<le> day r \<and> day r \<le> str_date e) \<and>
      (\<forall>r \<in> set df.
         str_date s \<le> day r \<and> day r \<le> str_date e \<and> zone r \<in> set zones \<and>
         crime_type r \<in> set crimes \<longrightarrow> r \<in> set v)"
    by blast
  have 6: "(str_date c = str_date s) = (c = s) \<and>
      (str_date s \<le> str_date c \<and> str_date c \<le> str_date e) = (s \<le> c \<and> c \<le> e)"
    if "valid_date s \<and> valid_date e \<and> valid_date c"
    using that by (simp add: str_date_eq_iff str_date_le_iff)
  have 7: "date_mask df (DateTuple []) = ListMask (replicate (length df) True)"
    by simp
  have 8: "filtered_df df (DateTuple []) zones crimes = Inl TypeError" if "df \<noteq> []"
    using that by (simp add: filtered_df_type_error)
  have 9: "app parse fs (DateTuple []) zones crimes = Raised TypeError"
    if "load_data parse fs = Inr df \<and> df \<noteq> []"
    using that 8 app_raises by blast
  from 1 2 3 4 5 6 7 8 9 show ?thesis by blast
qed

theorem date_mask_predicate_witness:
  "date_mask scenario_df (DateTuple [(2024, 1, 1), (2024, 1, 1)]) =
     SeriesMask [True, True, False] \<and>
   date_mask scenario_df (DateTuple [(2024, 1, 1), (2024, 1, 2)]) =
     SeriesMask [True, True, True] \<and>
   date_mask scenario_df (DateTuple [(2024, 1, 2)]) = SeriesMask [False, False, True] \<and>
   date_mask scenario_df (DateValue (2024, 1, 2)) = SeriesMask [False, False, True] \<and>
   valid_date (2023, 12, 31) \<and> valid_date (2024, 1, 1) \<and> valid_date (2024, 1, 2) \<and>
   str_date (2023, 12, 31) \<le> str_date (2024, 1, 1) \<and>
   str_date (2024, 1, 1) \<le> str_date (2024, 1, 2) \<and>
   filtered_df scenario_df (DateTuple [(2024, 1, 2), (2024, 1, 2)]) [''A'', ''B'']
     [''theft'', ''assault''] = Inr [scenario_df ! 2] \<and>
   load_data sample_parse (primary_only (Csv (Frame scenario_rows))) = Inr scenario_df \<and>
   scenario_df \<noteq> [] \<and>
   date_mask scenario_df (DateTuple []) = ListMask [True, True, True] \<and>
   filtered_df scenario_df (DateTuple []) [''A'', ''B''] [''theft'', ''assault''] =
     Inl TypeError \<and>
   app sample_parse (primary_only (Csv (Frame scenario_rows))) (DateTuple []) [''A'', ''B'']
     [''theft'', ''assault''] = Raised TypeError"
proof -
  note ev = scenario_df_def str_date_def pad4_def pad2_def digit_def
  note t = date_mask_predicate [where df = scenario_df and zones = "[''A'', ''B'']"
      and crimes = "[''theft'', ''assault'']" and parse = sample_parse
      and fs = "primary_only (Csv (Frame scenario_rows))"]
  from t [where s = "(2024, 1, 1)" and e = "(2024, 1, 1)"]
  have "date_mask scenario_df (DateTuple [(2024, 1, 1), (2024, 1, 1)]) =
        SeriesMask
          (map (\<lambda>r. str_date (2024, 1, 1) \<le> day r \<and> day r \<le> str_date (2024, 1, 1)) scenario_df)"
    by blast
  then have 1: "date_mask scenario_df (DateTuple [(2024, 1, 1), (2024, 1, 1)]) =
        SeriesMask [True, True, False]"
    by (simp add: ev)
  from t [where s = "(2024, 1, 1)" and e = "(2024, 1, 2)"]
  have "date_mask scenario_df (DateTuple [(2024, 1, 1), (2024, 1, 2)]) =
        SeriesMask
          (map (\<lambda>r. str_date (2024, 1, 1) \<le> day r \<and> day r \<le> str_date (2024, 1, 2)) scenario_df)"
    by blast
  then have 2: "date_mask scenario_df (DateTuple [(2024, 1, 1), (2024, 1, 2)]) =
        SeriesMask [True, True, True]"
    by (simp add: ev)
  from t [where d = "(2024, 1, 2)"]
  have "date_mask scenario_df (DateTuple [(2024, 1, 2)]) =
          SeriesMask (map (\<lambda>r. day r = str_date (2024, 1, 2)) scenario_df)"
    and "date_mask scenario_df (DateValue (2024, 1, 2)) =
          SeriesMask (map (\<lambda>r. day r = str_date (2024, 1, 2)) scenario_df)"
    by blast+
  then have 3: "date_mask scenario_df (DateTuple [(2024, 1, 2)]) = SeriesMask [False, False, True]"
    and 4: "date_mask scenario_df (DateValue (2024, 1, 2)) = SeriesMask [False, False, True]"
    by (simp_all add: ev)
  have v: "valid_date (2023, 12, 31)" "valid_date (2024, 1, 1)" "valid_date (2024, 1, 2)"
    by (simp_all add: valid_date_def)
  have o: "(2023 :: nat, 12 :: nat, 31 :: nat) \<le> (2024, 1, 1) \<and>
           (2024 :: nat, 1 :: nat, 1 :: nat) \<le> (2024, 1, 2)"
    by simp
  from v o t [where s = "(2023, 12, 31)" and c = "(2024, 1, 1)" and e = "(2024, 1, 2)"]
  have 5: "str_date (2023, 12, 31) \<le> str_date (2024, 1, 1) \<and>
           str_date (2024, 1, 1) \<le> str_date (2024, 1, 2)"
    by blast
  have 6: "filtered_df scenario_df (DateTuple [(2024, 1, 2), (2024, 1, 2)]) [''A'', ''B'']
     [''theft'', ''assault''] = Inr [scenario_df ! 2]"
    by (simp add: filtered_df_filter ev)
  from t have "date_mask scenario_df (DateTuple []) =
               ListMask (replicate (length scenario_df) True)"
    by blast
  then have 7: "date_mask scenario_df (DateTuple []) = ListMask [True, True, True]"
    by (simp add: scenario_df_def)
  from scenario_df_not_Nil t
  have 8: "filtered_df scenario_df (DateTuple []) [''A'', ''B''] [''theft'', ''assault''] =
           Inl TypeError"
    by blast
  from load_data_scenario scenario_df_not_Nil t
  have 9: "app sample_parse (primary_only (Csv (Frame scenario_rows))) (DateTuple [])
             [''A'', ''B''] [''theft'', ''assault''] = Raised TypeError"
    by blast
  from 1 2 3 4 v 5 6 load_data_scenario scenario_df_not_Nil 7 8 9 show ?thesis by blast
qed

text \<open>
  C4, as the specification states it, fails on the daily series of its scenario. When the
  file gives the first two records of the scenario the times 09:30 and 17:45 of the first
  of January 2024, the view is the first two records, the total is 2 and the modal crime
  type is theft, but the trend has two entries of count 1, one for each timestamp, and
  not one entry of count 2 for the day. (And with no date supplied the filter yields no
  view at all: it raises \<open>TypeError\<close>.)
\<close>

theorem scenario_trend_counterexample:
  "load_data sample_parse (primary_only (Csv (Frame timed_rows))) = Inr timed_df \<and>
   map day timed_df = [''2024-01-01'', ''2024-01-01'', ''2024-01-02''] \<and>
   map zone timed_df = [''A'', ''B'', ''A''] \<and>
   map crime_type timed_df = [''theft'', ''theft'', ''assault''] \<and>
   filtered_df timed_df (DateTuple [(2024, 1, 1), (2024, 1, 1)]) [''A'', ''B'']
     [''theft'', ''assault''] = Inr (take 2 timed_df) \<and>
   app sample_parse (primary_only (Csv (Frame timed_rows)))
     (DateTuple [(2024, 1, 1), (2024, 1, 1)]) [''A'', ''B''] [''theft'', ''assault''] =
   Rendered
      \<lparr> total_kpi = 2, risk_zone = ''A'', primary_code = ''theft'', peak_h = ''9:00'',
        counts = [(''theft'', 2)],
        trend = [(((2024, 1, 1), (9, 30, 0, 0)), 1), (((2024, 1, 1), (17, 45, 0, 0)), 1)] \<rparr> \<and>
   filtered_df timed_df (DateTuple []) [''A'', ''B''] [''theft'', ''assault''] = Inl TypeError"
proof -
  have "map day timed_df = [''2024-01-01'', ''2024-01-01'', ''2024-01-02'']"
    "map zone timed_df = [''A'', ''B'', ''A'']"
    "map crime_type timed_df = [''theft'', ''theft'', ''assault'']"
    by (simp_all add: timed_df_def)
  moreover have "filtered_df timed_df (DateTuple []) [''A'', ''B''] [''theft'', ''assault''] =
                 Inl TypeError"
    using timed_df_not_Nil by (simp add: filtered_df_type_error)
  ultimately show ?thesis
    using load_data_timed filtered_timed app_timed by (intro conjI)
qed

text \<open>
  C4, as the code has it. For a selection of one date or two, a record of the loaded
  frame is in the filtered view exactly when it satisfies the date predicate, its zone is
  among the selected zones and its crime type is among the selected crime types; the view
  keeps the order of the frame. For any three records with the days, zones and crime
  types of the scenario, with the range from 2024-01-01 to 2024-01-01, the zones A and B
  and the crime types theft and assault: the view is exactly the first two records, the
  total is 2, the modal crime type is theft, and the trend maps each timestamp of the two
  records to the number of records that bear it: one entry of count 2 when the two
  records bear the same timestamp, and two entries of count 1, the earlier first, when
  they do not.
\<close>

theorem filtered_df_conjunction:
  "(one_or_two_dates dates \<longrightarrow>
      filtered_df df dates zones crimes =
        Inr (filter (\<lambda>r. date_predicate dates r \<and> zone r \<in> set zones \<and>
                         crime_type r \<in> set crimes) df)) \<and>
   (day r1 = ''2024-01-01'' \<and> zone r1 = ''A'' \<and> crime_type r1 = ''theft'' \<and>
    day r2 = ''2024-01-01'' \<and> zone r2 = ''B'' \<and> crime_type r2 = ''theft'' \<and>
    day r3 = ''2024-01-02'' \<and> zone r3 = ''A'' \<and> crime_type r3 = ''assault'' \<longrightarrow>
      filtered_df [r1, r2, r3] (DateTuple [(2024, 1, 1), (2024, 1, 1)]) [''A'', ''B'']
        [''theft'', ''assault''] = Inr [r1, r2] \<and>
      (\<exists>d. kpis [r1, r2] = Rendered d \<and>
           total_kpi d = 2 \<and>
           primary_code d = ''theft'' \<and>
           trend d =
             (if date r1 = date r2 then [(date r1, 2)]
              else if date r1 < date r2 then [(date r1, 1), (date r2, 1)]
              else [(date r2, 1), (date r1, 1)])))"
proof -
  have 1: "filtered_df df dates zones crimes =
        Inr (filter (\<lambda>r. date_predicate dates r \<and> zone r \<in> set zones \<and>
                         crime_type r \<in> set crimes) df)" if "one_or_two_dates dates"
    using that by (rule filtered_df_filter)
  have 2: "filtered_df [r1, r2, r3] (DateTuple [(2024, 1, 1), (2024, 1, 1)]) [''A'', ''B'']
        [''theft'', ''assault''] = Inr [r1, r2] \<and>
      (\<exists>d. kpis [r1, r2] = Rendered d \<and>
           total_kpi d = 2 \<and>
           primary_code d = ''theft'' \<and>
           trend d =
             (if date r1 = date r2 then [(date r1, 2)]
              else if date r1 < date r2 then [(date r1, 1), (date r2, 1)]
              else [(date r2, 1), (date r1, 1)]))"
    if h: "day r1 = ''2024-01-01'' \<and> zone r1 = ''A'' \<and> crime_type r1 = ''theft'' \<and>
           day r2 = ''2024-01-01'' \<and> zone r2 = ''B'' \<and> crime_type r2 = ''theft'' \<and>
           day r3 = ''2024-01-02'' \<and> zone r3 = ''A'' \<and> crime_type r3 = ''assault''"
  proof -
    have a: "filtered_df [r1, r2, r3] (DateTuple [(2024, 1, 1), (2024, 1, 1)]) [''A'', ''B'']
        [''theft'', ''assault''] = Inr [r1, r2]"
      using h by (simp add: filtered_df_filter str_date_def pad4_def pad2_def digit_def)
    let ?d = "\<lparr> total_kpi = length [r1, r2],
               risk_zone = lowest_modal (map zone [r1, r2]),
               primary_code = lowest_modal (map crime_type [r1, r2]),
               peak_h = str_nat (lowest_modal (map hour [r1, r2])) @ '':00'',
               counts = value_counts (map crime_type [r1, r2]),
               trend = groupby_size (map date [r1, r2]) \<rparr>"
    have k: "kpis [r1, r2] = Rendered ?d"
      by (rule kpis_rendered) simp
    have "total_kpi ?d = 2" by simp
    moreover have "primary_code ?d = ''theft''"
      using h by (simp add: lowest_modal_theft)
    moreover have "trend ?d =
             (if date r1 = date r2 then [(date r1, 2)]
              else if date r1 < date r2 then [(date r1, 1), (date r2, 1)]
              else [(date r2, 1), (date r1, 1)])"
      by (simp add: groupby_size_pair)
    ultimately show ?thesis using a k by blast
  qed
  from 1 2 show ?thesis by blast
qed

theorem filtered_df_conjunction_witness:
  "filtered_df scenario_df (DateValue (2024, 1, 2)) [''A''] [''assault''] =
     Inr (drop 2 scenario_df) \<and>
   filtered_df scenario_df (DateTuple [(2024, 1, 1), (2024, 1, 1)]) [''A'', ''B'']
     [''theft'', ''assault''] = Inr (take 2 scenario_df) \<and>
   (\<exists>d. kpis (take 2 scenario_df) = Rendered d \<and> total_kpi d = 2 \<and>
      primary_code d = ''theft'' \<and> trend d = [(((2024, 1, 1), (0, 0, 0, 0)), 2)]) \<and>
   filtered_df timed_df (DateTuple [(2024, 1, 1), (2024, 1, 1)]) [''A'', ''B'']
     [''theft'', ''assault''] = Inr (take 2 timed_df) \<and>
   (\<exists>d. kpis (take 2 timed_df) = Rendered d \<and> total_kpi d = 2 \<and>
      primary_code d = ''theft'' \<and>
      trend d = [(((2024, 1, 1), (9, 30, 0, 0)), 1), (((2024, 1, 1), (17, 45, 0, 0)), 1)])"
proof -
  note ev = str_date_def pad4_def pad2_def digit_def
  have "one_or_two_dates (DateValue (2024, 1, 2))" by simp
  with filtered_df_conjunction [where df = scenario_df and dates = "DateValue (2024, 1, 2)"
      and zones = "[''A'']" and crimes = "[''assault'']"]
  have "filtered_df scenario_df (DateValue (2024, 1, 2)) [''A''] [''assault''] =
        Inr (filter (\<lambda>r. date_predicate (DateValue (2024, 1, 2)) r \<and> zone r \<in> set [''A''] \<and>
                          crime_type r \<in> set [''assault'']) scenario_df)"
    by blast
  then have 1: "filtered_df scenario_df (DateValue (2024, 1, 2)) [''A''] [''assault''] =
        Inr (drop 2 scenario_df)"
    by (simp add: scenario_df_def ev)
  let ?a1 = "scenario_df ! 0" and ?a2 = "scenario_df ! 1" and ?a3 = "scenario_df ! 2"
  have ha: "day ?a1 = ''2024-01-01'' \<and> zone ?a1 = ''A'' \<and> crime_type ?a1 = ''theft'' \<and>
            day ?a2 = ''2024-01-01'' \<and> zone ?a2 = ''B'' \<and> crime_type ?a2 = ''theft'' \<and>
            day ?a3 = ''2024-01-02'' \<and> zone ?a3 = ''A'' \<and> crime_type ?a3 = ''assault''"
    by (simp add: scenario_df_def)
  have ea: "[?a1, ?a2, ?a3] = scenario_df" "[?a1, ?a2] = take 2 scenario_df"
    "date ?a1 = ((2024, 1, 1), (0, 0, 0, 0))" "date ?a2 = ((2024, 1, 1), (0, 0, 0, 0))"
    by (simp_all add: scenario_df_def)
  from ha filtered_df_conjunction [where ?r1.0 = ?a1 and ?r2.0 = ?a2 and ?r3.0 = ?a3]
  have "filtered_df [?a1, ?a2, ?a3] (DateTuple [(2024, 1, 1), (2024, 1, 1)]) [''A'', ''B'']
          [''theft'', ''assault''] = Inr [?a1, ?a2] \<and>
        (\<exists>d. kpis [?a1, ?a2] = Rendered d \<and> total_kpi d = 2 \<and> primary_code d = ''theft'' \<and>
           trend d =
             (if date ?a1 = date ?a2 then [(date ?a1, 2)]
              else if date ?a1 < date ?a2 then [(date ?a1, 1), (date ?a2, 1)]
              else [(date ?a2, 1), (date ?a1, 1)]))"
    by blast
  then have 2: "filtered_df scenario_df (DateTuple [(2024, 1, 1), (2024, 1, 1)]) [''A'', ''B'']
          [''theft'', ''assault''] = Inr (take 2 scenario_df) \<and>
        (\<exists>d. kpis (take 2 scenario_df) = Rendered d \<and> total_kpi d = 2 \<and>
           primary_code d = ''theft'' \<and> trend d = [(((2024, 1, 1), (0, 0, 0, 0)), 2)])"
    unfolding ea by simp
  let ?b1 = "timed_df ! 0" and ?b2 = "timed_df ! 1" and ?b3 = "timed_df ! 2"
  have hb: "day ?b1 = ''2024-01-01'' \<and> zone ?b1 = ''A'' \<and> crime_type ?b1 = ''theft'' \<and>
            day ?b2 = ''2024-01-01'' \<and> zone ?b2 = ''B'' \<and> crime_type ?b2 = ''theft'' \<and>
            day ?b3 = ''2024-01-02'' \<and> zone ?b3 = ''A'' \<and> crime_type ?b3 = ''assault''"
    by (simp add: timed_df_def)
  have eb: "[?b1, ?b2, ?b3] = timed_df" "[?b1, ?b2] = take 2 timed_df"
    "date ?b1 = ((2024, 1, 1), (9, 30, 0, 0))" "date ?b2 = ((2024, 1, 1), (17, 45, 0, 0))"
    by (simp_all add: timed_df_def)
  from hb filtered_df_conjunction [where ?r1.0 = ?b1 and ?r2.0 = ?b2 and ?r3.0 = ?b3]
  have "filtered_df [?b1, ?b2, ?b3] (DateTuple [(2024, 1, 1), (2024, 1, 1)]) [''A'', ''B'']
          [''theft'', ''assault''] = Inr [?b1, ?b2] \<and>
        (\<exists>d. kpis [?b1, ?b2] = Rendered d \<and> total_kpi d = 2 \<and> primary_code d = ''theft'' \<and>
           trend d =
             (if date ?b1 = date ?b2 then [(date ?b1, 2)]
              else if date ?b1 < date ?b2 then [(date ?b1, 1), (date ?b2, 1)]
              else [(date ?b2, 1), (date ?b1, 1)]))"
    by blast
  then have 3: "filtered_df timed_df (DateTuple [(2024, 1, 1), (2024, 1, 1)]) [''A'', ''B'']
          [''theft'', ''assault''] = Inr (take 2 timed_df) \<and>
        (\<exists>d. kpis (take 2 timed_df) = Rendered d \<and> total_kpi d = 2 \<and>
           primary_code d = ''theft'' \<and>
           trend d = [(((2024, 1, 1), (9, 30, 0, 0)), 1), (((2024, 1, 1), (17, 45, 0, 0)), 1)])"
    unfolding eb by simp
  from 1 2 3 show ?thesis by blast
qed

end
